theory Spec2Isabelle
  imports Complex_Main "HOL-Library.Sublist"
begin

section \<open>ROV operations dashboard (app.py)\<close>

text \<open>
  The dashboard generates a synthetic telemetry series, cuts it to a time window chosen
  in the sidebar, and renders it. This theory embeds the generator, the filter and the
  rendering functions of \<^verbatim>\<open>app.py\<close> and proves the properties its
  specification states.

  Conventions of the embedding:
  \<^item> An instant (\<^verbatim>\<open>datetime\<close>) and a duration (\<^verbatim>\<open>timedelta\<close>) are
    integers counting microseconds, an instant from \<^verbatim>\<open>datetime.min\<close>
    (0001-01-01 00:00:00).
  \<^item> A 64-bit float is a \<open>real\<close>, and arithmetic on floats is exact, with one
    exception: the remainder \<^verbatim>\<open>%\<close> rounds its result as the float operation does.
  \<^item> An exception is a value \<open>Inl e\<close> of the result.
  \<^item> The clock, the random generator and the radio button pressed are inputs.
\<close>

subsection \<open>Exceptions\<close>

datatype error = OverflowError | ValueError | IndexError

definition bind :: "error + 'a \<Rightarrow> ('a \<Rightarrow> error + 'b) \<Rightarrow> error + 'b" where
  "bind m f = (case m of Inl e \<Rightarrow> Inl e | Inr x \<Rightarrow> f x)"

text \<open>A list comprehension whose element expression may raise: the first raise ends it.\<close>

primrec comprehension :: "('a \<Rightarrow> error + 'b) \<Rightarrow> 'a list \<Rightarrow> error + 'b list" where
  "comprehension f [] = Inr []"
| "comprehension f (x # xs) =
     (case f x of
        Inl e \<Rightarrow> Inl e
      | Inr y \<Rightarrow> (case comprehension f xs of Inl e \<Rightarrow> Inl e | Inr ys \<Rightarrow> Inr (y # ys)))"

subsection \<open>datetime and timedelta\<close>

text \<open>
  \<^verbatim>\<open>datetime.max\<close> is 9999-12-31 23:59:59.999999, the last microsecond of day
  3652059 of the proleptic Gregorian calendar.
\<close>

definition datetime_max :: int where
  "datetime_max = 3652059 * 86400000000 - 1"

definition valid_datetime :: "int \<Rightarrow> bool" where
  "valid_datetime t \<longleftrightarrow> 0 \<le> t \<and> t \<le> datetime_max"

text \<open>
  \<^verbatim>\<open>timedelta(hours=h, minutes=m)\<close>: the duration is normalised to days, seconds and
  microseconds, and the constructor raises OverflowError when the days exceed 999999999
  in magnitude.
\<close>

definition timedelta :: "int \<Rightarrow> int \<Rightarrow> error + int" where
  "timedelta hours minutes =
     (let us = (hours * 60 + minutes) * 60000000
      in if \<bar>us div 86400000000\<bar> \<le> 999999999 then Inr us else Inl OverflowError)"

text \<open>
  \<^verbatim>\<open>datetime - timedelta\<close> raises OverflowError (``date value out of range'') when
  the result is not a year from 1 to 9999.
\<close>

definition datetime_sub :: "int \<Rightarrow> int \<Rightarrow> error + int" where
  "datetime_sub t d =
     (if valid_datetime (t - d) then Inr (t - d) else Inl OverflowError)"

subsection \<open>numpy\<close>

text \<open>
  \<^verbatim>\<open>np.linspace(start, stop, num)\<close> with the end point included: \<open>num\<close> evenly
  spaced values, the single value \<open>start\<close> when \<open>num = 1\<close>, and ValueError for a
  negative \<open>num\<close>.
\<close>

definition linspace :: "real \<Rightarrow> real \<Rightarrow> int \<Rightarrow> error + real list" where
  "linspace start stop num =
     (if num < 0 then Inl ValueError
      else Inr (map (\<lambda>i. if num = 1 then start
                          else start + real i * ((stop - start) / real_of_int (num - 1)))
                    [0..<nat num]))"

text \<open>
  The global random generator is the stream of standard normal deviates it has yet to
  hand out. \<^verbatim>\<open>np.random.normal(loc, scale, size)\<close> takes the next \<open>n\<close> of them,
  scales and shifts each, and leaves the rest of the stream. (The size is never negative
  where the generator calls it: \<open>linspace\<close> has raised before.)
\<close>

type_synonym rng = "nat \<Rightarrow> real"

definition random_normal :: "real \<Rightarrow> real \<Rightarrow> nat \<Rightarrow> rng \<Rightarrow> real list \<times> rng" where
  "random_normal loc scale n g =
     (map (\<lambda>i. loc + scale * g i) [0..<n], (\<lambda>i. g (i + n)))"

text \<open>\<^verbatim>\<open>np.clip(a, a_min, a_max)\<close> is \<open>minimum(a_max, maximum(a, a_min))\<close>, by element.\<close>

definition clip :: "real list \<Rightarrow> real \<Rightarrow> real \<Rightarrow> real list" where
  "clip a a_min a_max = map (\<lambda>x. min a_max (max x a_min)) a"

text \<open>\<^verbatim>\<open>np.cumsum\<close>: element \<open>i\<close> is the sum of the elements up to and including \<open>i\<close>.\<close>

primrec cumsum_from :: "real \<Rightarrow> real list \<Rightarrow> real list" where
  "cumsum_from acc [] = []"
| "cumsum_from acc (x # xs) = (acc + x) # cumsum_from (acc + x) xs"

definition cumsum :: "real list \<Rightarrow> real list" where
  "cumsum xs = cumsum_from 0 xs"

text \<open>
  Rounding to the nearest 64-bit float, ties to the even significand: a float with the
  exponent \<open>e\<close> is a multiple of \<open>2 powr (e - 52)\<close>, and \<open>e\<close> is at least \<open>-1022\<close> (below
  that the floats are subnormal and equally spaced). Overflow to infinity is left out.
\<close>

definition round_half_even :: "real \<Rightarrow> int" where
  "round_half_even r =
     (let f = \<lfloor>r\<rfloor>
      in if r - of_int f < 1 / 2 then f
         else if 1 / 2 < r - of_int f then f + 1
         else if even f then f else f + 1)"

definition round64 :: "real \<Rightarrow> real" where
  "round64 x =
     (if x = 0 then 0
      else let e = max \<lfloor>log 2 \<bar>x\<bar>\<rfloor> (- 1022);
               u = 2 powr of_int (e - 52)
           in u * of_int (round_half_even (x / u)))"

text \<open>
  C's \<^verbatim>\<open>fmod(x, m)\<close>: \<open>x\<close> minus \<open>m\<close> times the quotient truncated towards zero. It has
  the sign of \<open>x\<close> and is exact in floats. (The divisor is not zero where it is used.)
\<close>

definition fmod :: "real \<Rightarrow> real \<Rightarrow> real" where
  "fmod x m = x - m * of_int (if 0 \<le> x / m then \<lfloor>x / m\<rfloor> else \<lceil>x / m\<rceil>)"

text \<open>
  The remainder \<^verbatim>\<open>x % m\<close> of NumPy's floats: \<^verbatim>\<open>fmod(x, m)\<close>, and when that is not zero
  and its sign is not the sign of the divisor, the divisor is added to it. This addition is
  a float addition, so its result is rounded: for a negative \<open>x\<close> close enough to zero,
  \<open>x % 360\<close> is \<open>360\<close> itself. Here, and only here, the rounding is part of the model,
  since the range of the result depends on it.
\<close>

definition remainder :: "real \<Rightarrow> real \<Rightarrow> real" where
  "remainder x m =
     (let md = fmod x m
      in if md \<noteq> 0 \<and> ((m < 0) \<noteq> (md < 0)) then round64 (md + m) else md)"

subsection \<open>The telemetry series\<close>

record sample =
  timestamp :: int
  depth_m :: real
  temperature_c :: real
  pressure_kpa :: real
  power_pct :: real
  heading_deg :: real
  speed_knots :: real

text \<open>A data frame is the list of its rows, in index order.\<close>

type_synonym frame = "sample list"

text \<open>
  \<^verbatim>\<open>pd.DataFrame({...})\<close> of seven columns: row \<open>i\<close> takes element \<open>i\<close> of each
  column, and columns of different lengths are a ValueError.
\<close>

definition DataFrame ::
  "int list \<Rightarrow> real list \<Rightarrow> real list \<Rightarrow> real list \<Rightarrow> real list \<Rightarrow> real list \<Rightarrow> real list
     \<Rightarrow> error + frame" where
  "DataFrame ts depths temps pressures powers headings speeds =
     (if length depths = length ts \<and> length temps = length ts
         \<and> length pressures = length ts \<and> length powers = length ts
         \<and> length headings = length ts \<and> length speeds = length ts
      then Inr (map (\<lambda>i. \<lparr>timestamp = ts ! i, depth_m = depths ! i,
                           temperature_c = temps ! i, pressure_kpa = pressures ! i,
                           power_pct = powers ! i, heading_deg = headings ! i,
                           speed_knots = speeds ! i\<rparr>)
                    [0..<length ts])
      else Inl ValueError)"

subsection \<open>The generator\<close>

text \<open>
  \<^verbatim>\<open>_generate_sample_data(num_records)\<close>, lines 22 to 41 (a name of Isabelle cannot
  start with an underscore). \<open>now\<close> is what
  \<^verbatim>\<open>datetime.utcnow()\<close> returns and \<open>g\<close> the state of the random generator. The
  six calls of \<^verbatim>\<open>np.random.normal\<close> draw in the order of the source: depth,
  temperature, pressure, power, heading, speed.
\<close>

definition generate_sample_data :: "int \<Rightarrow> rng \<Rightarrow> int \<Rightarrow> error + frame" where
  "generate_sample_data now g num_records =
     bind (comprehension (\<lambda>i. bind (timedelta 0 (5 * i)) (datetime_sub now))
             (map int [0..<nat num_records])) (\<lambda>newest_first.
     let timestamps = rev newest_first in
     bind (linspace 100 350 num_records) (\<lambda>ramp.
     let n = nat num_records;
         (noise_depth, g1) = random_normal 0 8 n g;
         base_depth = map2 (+) ramp noise_depth;
         (noise_temperature, g2) = random_normal 0 0.2 n g1;
         base_temperature =
           map2 (+) (map (\<lambda>i. 4 + 0.005 * real i) [0..<n]) noise_temperature;
         (noise_pressure, g3) = random_normal 0 5 n g2;
         base_pressure = map2 (+) (map (\<lambda>d. 1.3 * d) base_depth) noise_pressure;
         (noise_power, g4) = random_normal 0 4 n g3;
         (steps, g5) = random_normal 0 1.5 n g4;
         (noise_speed, g6) = random_normal 0 0.3 n g5
     in DataFrame timestamps base_depth base_temperature base_pressure
          (clip (map (\<lambda>x. 75 + x) noise_power) 60 95)
          (map (\<lambda>x. remainder x 360) (map (\<lambda>c. 180 + c) (cumsum steps)))
          (clip (map (\<lambda>x. 2.5 + x) noise_speed) 1.0 3.5)))"

subsection \<open>The mission record\<close>

text \<open>
  The dataclass \<^verbatim>\<open>MissionStatus\<close>, lines 44 to 53. Its last field, \<^verbatim>\<open>notes\<close>, is
  \<open>notes'\<close> here, as \<open>notes\<close> is a keyword of Isabelle.
\<close>

record MissionStatus =
  mission_name :: string
  objective :: string
  location :: string
  pilot :: string
  supervisor :: string
  start_time :: int
  status :: string
  notes' :: string

subsection \<open>The page and the session\<close>

text \<open>
  A Streamlit call adds one element to the page. The elements keep the data they show;
  layout (columns, tabs, the expander), colours and the formatting of numbers as text are
  left out: a metric holds the number or the text it formats.
\<close>

datatype shown = Text string | Number real | Hours_minutes int int

datatype element =
    Page_config string
  | Sidebar_header string
  | Sidebar_radio string "string list" nat
  | Sidebar_markdown string
  | Sidebar_write string
  | Title string
  | Caption string
  | Subheader string
  | Metric string shown "shown option"
  | Markdown "string list"
  | Line_chart string "(int \<times> real) list"
  | Gauge string real
  | Scatter_polar string "(real \<times> real) list"
  | Dataframe "(int \<times> real \<times> real \<times> real \<times> real \<times> real \<times> real) list"

text \<open>
  The state of one run of the script: the data-frame objects that exist (a reference to a
  data frame is its index in \<open>frames\<close>), the module-level object \<^verbatim>\<open>MISSION\<close>, and the
  page rendered so far. A function that receives a data frame receives a reference, as in
  Python, and returns the state it leaves behind.
\<close>

type_synonym ref = nat

record session =
  frames :: "frame list"
  MISSION :: MissionStatus
  page :: "element list"

definition render :: "element \<Rightarrow> session \<Rightarrow> session" where
  "render e s = s\<lparr>page := page s @ [e]\<rparr>"

text \<open>A new data-frame object: it gets the next free reference, and no other object changes.\<close>

definition new_frame :: "frame \<Rightarrow> session \<Rightarrow> ref \<times> session" where
  "new_frame rows s = (length (frames s), s\<lparr>frames := frames s @ [rows]\<rparr>)"

subsection \<open>The time-window filter\<close>

text \<open>The dictionary \<^verbatim>\<open>time_options\<close>, lines 72 to 78; the radio button returns one of its keys.\<close>

datatype time_range = Last_30_minutes | Last_1_hour | Last_3_hours | Last_6_hours | All_data

fun time_options :: "time_range \<Rightarrow> int option" where
  "time_options Last_30_minutes = Some 30"
| "time_options Last_1_hour = Some 60"
| "time_options Last_3_hours = Some 180"
| "time_options Last_6_hours = Some 360"
| "time_options All_data = None"

definition time_labels :: "string list" where
  "time_labels =
     [''Last 30 minutes'', ''Last 1 hour'', ''Last 3 hours'', ''Last 6 hours'', ''All data'']"

text \<open>
  \<^verbatim>\<open>df["timestamp"].max()\<close>: the greatest timestamp, and \<^verbatim>\<open>NaT\<close> (here \<open>None\<close>) for
  a column without rows.
\<close>

definition series_max :: "int list \<Rightarrow> int option" where
  "series_max ts = (if ts = [] then None else Some (Max (set ts)))"

text \<open>
  Lines 83 and 84 for a window that is the duration \<open>window\<close>: the rows whose timestamp is
  at least the greatest timestamp minus the window, in their order. Without rows the cutoff
  is \<^verbatim>\<open>NaT\<close>, no comparison with it holds, and the result has no rows. The timestamps of a
  data frame are instants as integers; the limits of the range of the data-frame library's
  timestamp type are not part of the model.
\<close>

definition rows_since :: "int \<Rightarrow> frame \<Rightarrow> frame" where
  "rows_since window df =
     (case series_max (map timestamp df) of
        None \<Rightarrow> []
      | Some newest \<Rightarrow> (let cutoff = newest - window in filter (\<lambda>r. cutoff \<le> timestamp r) df))"

text \<open>
  \<^verbatim>\<open>sidebar_filters(df)\<close>, lines 70 to 84. \<open>selection\<close> is what the radio button
  returns. ``All data'' returns the object it was given; a window returns a new object.
\<close>

definition sidebar_filters :: "time_range \<Rightarrow> ref \<Rightarrow> session \<Rightarrow> error + (ref \<times> session)" where
  "sidebar_filters selection df s =
     (let s1 = render (Sidebar_header ''Filters'') s;
          s2 = render (Sidebar_radio ''Time range'' time_labels 2) s1
      in case time_options selection of
           None \<Rightarrow> Inr (df, s2)
         | Some minutes \<Rightarrow>
             bind (timedelta 0 minutes) (\<lambda>window.
               Inr (new_frame (rows_since window (frames s2 ! df)) s2)))"

subsection \<open>Rendering\<close>

text \<open>\<^verbatim>\<open>df.iloc[k]\<close>: row \<open>k\<close>, counted from the end when \<open>k\<close> is negative; IndexError outside.\<close>

definition iloc :: "frame \<Rightarrow> int \<Rightarrow> error + sample" where
  "iloc df k =
     (let n = int (length df); j = (if k < 0 then n + k else k)
      in if 0 \<le> j \<and> j < n then Inr (df ! nat j) else Inl IndexError)"

text \<open>\<^verbatim>\<open>df.tail(k)\<close>: the last \<open>k\<close> rows, all of them when there are fewer.\<close>

definition tail :: "nat \<Rightarrow> frame \<Rightarrow> frame" where
  "tail k df = drop (length df - k) df"

text \<open>
  \<^verbatim>\<open>mission_overview(status, df)\<close>, lines 87 to 114. \<open>now\<close> is what
  \<^verbatim>\<open>datetime.utcnow()\<close> returns on line 95; \<^verbatim>\<open>elapsed.seconds\<close> is the seconds field of
  the normalised difference. Each of the three deltas reads \<^verbatim>\<open>df.iloc[-2]\<close>. The
  parameter \<^verbatim>\<open>status\<close> is \<open>st\<close> here, \<open>status\<close> being a field of the record.
\<close>

definition mission_overview :: "int \<Rightarrow> MissionStatus \<Rightarrow> ref \<Rightarrow> session \<Rightarrow> error + session" where
  "mission_overview now st df s =
     (let s1 = render (Title ''ROV Operations Dashboard'') s;
          s2 = render (Caption
                 ''Live operations overview with synthetic telemetry for demonstration.'') s1;
          s3 = render (Metric ''Mission'' (Text (mission_name st)) None) s2;
          s4 = render (Metric ''Status'' (Text (status st)) None) s3;
          elapsed = now - start_time st;
          seconds = (elapsed div 1000000) mod 86400;
          s5 = render (Metric ''Elapsed Time''
                 (Hours_minutes (seconds div 3600) ((seconds mod 3600) div 60)) None) s4;
          s6 = render (Metric ''Pilot'' (Text (pilot st)) None) s5;
          s7 = render (Markdown [objective st, location st, supervisor st, notes' st]) s6;
          rows = frames s7 ! df
      in bind (iloc rows (- 1)) (\<lambda>latest.
         bind (iloc rows (- 2)) (\<lambda>before.
         let s8 = render (Metric ''Depth'' (Number (depth_m latest))
                    (Some (Number (depth_m latest - depth_m before)))) s7
         in bind (iloc rows (- 2)) (\<lambda>before.
         let s9 = render (Metric ''Temperature'' (Number (temperature_c latest))
                    (Some (Number (temperature_c latest - temperature_c before)))) s8;
             s10 = render (Metric ''Pressure'' (Number (pressure_kpa latest)) None) s9
         in bind (iloc rows (- 2)) (\<lambda>before.
         Inr (render (Metric ''Power Reserve'' (Number (power_pct latest))
                (Some (Number (power_pct latest - power_pct before)))) s10))))))"

text \<open>\<^verbatim>\<open>plot_timeseries(df)\<close>, lines 117 to 155.\<close>

definition plot_timeseries :: "ref \<Rightarrow> session \<Rightarrow> error + session" where
  "plot_timeseries df s =
     (let s1 = render (Subheader ''Telemetry Trends'') s;
          rows = frames s1 ! df;
          s2 = render (Line_chart ''Depth over Time''
                 (map (\<lambda>r. (timestamp r, depth_m r)) rows)) s1;
          s3 = render (Line_chart ''Temperature over Time''
                 (map (\<lambda>r. (timestamp r, temperature_c r)) rows)) s2
      in Inr (render (Line_chart ''Pressure over Time''
                 (map (\<lambda>r. (timestamp r, pressure_kpa r)) rows)) s3))"

text \<open>\<^verbatim>\<open>engineering_panel(df)\<close>, lines 158 to 191.\<close>

definition engineering_panel :: "ref \<Rightarrow> session \<Rightarrow> error + session" where
  "engineering_panel df s =
     (let s1 = render (Subheader ''Engineering Snapshot'') s;
          rows = frames s1 ! df
      in bind (iloc rows (- 1)) (\<lambda>latest.
         let s2 = render (Gauge ''Power Reserve'' (power_pct latest)) s1
         in Inr (render (Scatter_polar ''Heading & Speed (last 60 samples)''
                   (map (\<lambda>r. (speed_knots r, heading_deg r)) (tail 60 rows))) s2)))"

text \<open>
  \<^verbatim>\<open>telemetry_table(df)\<close>, lines 194 to 214. The function changes a copy of the frame,
  an object of its own that nothing else refers to: the copy is a local value here. A
  timestamp formatted to the minute is the minute it shows.
\<close>

definition telemetry_table :: "ref \<Rightarrow> session \<Rightarrow> error + session" where
  "telemetry_table df s =
     (let s1 = render (Subheader ''Telemetry Table'') s;
          formatted_df =
            map (\<lambda>r. (timestamp r div 60000000, depth_m r, temperature_c r, pressure_kpa r,
                       power_pct r, heading_deg r, speed_knots r)) (frames s1 ! df)
      in Inr (render (Dataframe (rev (drop (length formatted_df - 50) formatted_df))) s1))"

subsection \<open>The script\<close>

text \<open>
  The module from top to bottom: the page configuration (line 14), \<^verbatim>\<open>MISSION\<close>
  (lines 56 to 65), \<^verbatim>\<open>telemetry_df\<close> (line 67) and the calls of lines 217 to 227.
  \<open>t1\<close>, \<open>t2\<close> and \<open>t3\<close> are the three readings of the clock, in the order of execution.
\<close>

definition script :: "int \<Rightarrow> int \<Rightarrow> int \<Rightarrow> rng \<Rightarrow> time_range \<Rightarrow> error + session" where
  "script t1 t2 t3 g selection =
     bind (timedelta 3 27) (\<lambda>since.
     bind (datetime_sub t1 since) (\<lambda>started.
     let mission = \<lparr>mission_name = ''Poseidon-7 Survey'',
                    objective = ''Map subsea pipeline integrity and capture HD imagery'',
                    location = ''North Sea Block 15'',
                    pilot = ''Casey Morgan'',
                    supervisor = ''Lt. Priya Desai'',
                    start_time = started,
                    status = ''Active'',
                    notes' = ''Monitoring cross-current turbulence; maintain depth < 350m.''\<rparr>
     in bind (generate_sample_data t2 g 120) (\<lambda>telemetry.
     let s0 = \<lparr>frames = [telemetry], MISSION = mission,
                page = [Page_config ''ROV Operations Dashboard'']\<rparr>;
         telemetry_df = 0
     in bind (sidebar_filters selection telemetry_df s0) (\<lambda>(filtered_df, s1).
        bind (mission_overview t3 (MISSION s1) filtered_df s1) (\<lambda>s2.
        bind (plot_timeseries filtered_df s2) (\<lambda>s3.
        bind (engineering_panel filtered_df s3) (\<lambda>s4.
        bind (telemetry_table filtered_df s4) (\<lambda>s5.
        Inr (render (Sidebar_write
               ''This dashboard uses synthetic data for demonstration. Replace the data generation logic with live telemetry integration for production use.'')
              (render (Sidebar_markdown ''---'') s5))))))))))"
subsection \<open>Inputs of the worked examples\<close>

text \<open>
  The instant 2026-11-03 00:00:00, day 739922 after \<^verbatim>\<open>datetime.min\<close>, and a random
  generator whose \<open>i\<close>-th deviate is \<open>i\<close>.
\<close>

definition t_2026 :: int where
  "t_2026 = 63929260800000000"

definition counting :: rng where
  "counting i = real i"

text \<open>
  Ten samples five minutes apart, the last one at \<open>t_2026\<close>, and a session that holds
  them as its only data frame.
\<close>

definition ten_samples :: frame where
  "ten_samples =
     map (\<lambda>i. \<lparr>timestamp = t_2026 - (9 - int i) * 300000000, depth_m = 100 + real i,
                temperature_c = 4, pressure_kpa = 130, power_pct = 75, heading_deg = 180,
                speed_knots = 2.5\<rparr>) [0..<10]"

definition example_session :: session where
  "example_session =
     \<lparr>frames = [ten_samples],
      MISSION = \<lparr>mission_name = ''Poseidon-7 Survey'', objective = ''Survey'',
                 location = ''North Sea Block 15'', pilot = ''Casey Morgan'',
                 supervisor = ''Lt. Priya Desai'', start_time = t_2026 - 12420000000,
                 status = ''Active'', notes' = ''None''\<rparr>,
      page = []\<rparr>"

text \<open>A session whose only data frame holds a single sample, the last of the ten.\<close>

definition lone_session :: session where
  "lone_session = example_session\<lparr>frames := [drop 9 ten_samples]\<rparr>"

section \<open>Properties of the generator\<close>

subsection \<open>Auxiliary facts\<close>

lemma bind_Inr_iff: "bind m f = Inr y \<longleftrightarrow> (\<exists>x. m = Inr x \<and> f x = Inr y)"
  by (cases m) (simp_all add: bind_def)

lemma bind_Inr [simp]: "bind (Inr x) f = f x"
  by (simp add: bind_def)

lemma bind_Inl [simp]: "bind (Inl e) f = Inl e"
  by (simp add: bind_def)

lemma comprehension_total:
  "(\<And>x. x \<in> set xs \<Longrightarrow> f x = Inr (h x)) \<Longrightarrow> comprehension f xs = Inr (map h xs)"
  by (induction xs) simp_all

lemma comprehension_raises:
  assumes "x \<in> set xs" "f x = Inl e"
    and "\<And>x' e'. f x' = Inl e' \<Longrightarrow> e' = e"
  shows "comprehension f xs = Inl e"
  using assms(1,2)
proof (induction xs)
  case Nil
  then show ?case by simp
next
  case (Cons a xs)
  show ?case
  proof (cases "f a")
    case (Inl e')
    then have "e' = e" by (rule assms(3))
    with Inl show ?thesis by simp
  next
    case (Inr y)
    with Cons.prems have "x \<in> set xs" by auto
    then have "comprehension f xs = Inl e" using Cons.prems(2) by (rule Cons.IH)
    with Inr show ?thesis by simp
  qed
qed

lemma comprehension_Inr_D:
  "comprehension f xs = Inr ys \<Longrightarrow> length ys = length xs \<and> (\<forall>i<length xs. f (xs ! i) = Inr (ys ! i))"
proof (induction xs arbitrary: ys)
  case Nil
  then show ?case by simp
next
  case (Cons x xs)
  from Cons.prems obtain y zs where y: "f x = Inr y" and zs: "comprehension f xs = Inr zs"
    and ys: "ys = y # zs"
    by (auto split: sum.splits)
  from Cons.IH [OF zs] have len: "length zs = length xs"
    and nth: "\<And>i. i < length xs \<Longrightarrow> f (xs ! i) = Inr (zs ! i)" by simp_all
  show ?case
  proof (intro conjI allI impI)
    show "length ys = length (x # xs)" using len ys by simp
  next
    fix i assume "i < length (x # xs)"
    then show "f ((x # xs) ! i) = Inr (ys ! i)"
      using y nth ys by (cases i) simp_all
  qed
qed

lemma timedelta_range:
  assumes "0 \<le> us" "us \<le> datetime_max"
  shows "\<bar>us div 86400000000\<bar> \<le> 999999999"
proof -
  have "0 \<le> us div 86400000000" using assms(1) by simp
  moreover have "us div 86400000000 \<le> datetime_max div 86400000000"
    using assms(2) by (intro zdiv_mono1) simp_all
  moreover have "datetime_max div 86400000000 \<le> 999999999"
    by (simp add: datetime_max_def)
  ultimately show ?thesis by linarith
qed

lemma timedelta_cases:
  "timedelta 0 (5 * i) = Inr (300000000 * i) \<or> timedelta 0 (5 * i) = Inl OverflowError"
  by (simp add: timedelta_def Let_def)

lemma step_cases:
  "bind (timedelta 0 (5 * i)) (datetime_sub now) = Inr (now - 300000000 * i)
   \<or> bind (timedelta 0 (5 * i)) (datetime_sub now) = Inl OverflowError"
  using timedelta_cases [of i] by (auto simp: datetime_sub_def split: if_splits)

lemma step_ok:
  assumes "valid_datetime now" "0 \<le> i" "300000000 * i \<le> now"
  shows "bind (timedelta 0 (5 * i)) (datetime_sub now) = Inr (now - 300000000 * i)"
proof -
  have "0 \<le> 300000000 * i" "300000000 * i \<le> datetime_max"
    using assms by (simp_all add: valid_datetime_def)
  then have "\<bar>(300000000 * i) div 86400000000\<bar> \<le> 999999999"
    by (rule timedelta_range)
  then have "timedelta 0 (5 * i) = Inr (300000000 * i)"
    by (simp add: timedelta_def Let_def)
  moreover have "valid_datetime (now - 300000000 * i)"
    using assms by (simp add: valid_datetime_def)
  ultimately show ?thesis by (simp add: datetime_sub_def)
qed

lemma step_fails:
  assumes "now < 300000000 * i"
  shows "bind (timedelta 0 (5 * i)) (datetime_sub now) = Inl OverflowError"
proof -
  have "\<not> valid_datetime (now - 300000000 * i)"
    using assms by (simp add: valid_datetime_def)
  then have "datetime_sub now (300000000 * i) = Inl OverflowError"
    by (simp add: datetime_sub_def)
  then show ?thesis
    using timedelta_cases [of i] by auto
qed

lemma length_cumsum_from: "length (cumsum_from acc xs) = length xs"
  by (induction xs arbitrary: acc) simp_all

lemma nth_cumsum_from:
  "i < length xs \<Longrightarrow> cumsum_from acc xs ! i = acc + sum_list (take (Suc i) xs)"
proof (induction xs arbitrary: acc i)
  case Nil
  then show ?case by simp
next
  case (Cons x xs)
  then show ?case by (cases i) simp_all
qed

lemma length_cumsum: "length (cumsum xs) = length xs"
  by (simp add: cumsum_def length_cumsum_from)

lemma nth_cumsum_map:
  assumes "i < n"
  shows "cumsum (map f [0..<n]) ! i = (\<Sum>k\<le>i. f k)"
proof -
  have "take (Suc i) (map f [0..<n]) = map f [0..<Suc i]"
    using assms by (simp add: take_map min_def del: upt_Suc)
  then have "cumsum (map f [0..<n]) ! i = sum_list (map f [0..<Suc i])"
    using assms by (simp add: cumsum_def nth_cumsum_from del: upt_Suc)
  also have "\<dots> = (\<Sum>k\<le>i. f k)"
    by (simp add: interv_sum_list_conv_sum_set_nat atLeast0AtMost lessThan_Suc_atMost
        atLeast0LessThan del: upt_Suc)
  finally show ?thesis .
qed

lemma generate_unfold:
  "generate_sample_data now g N =
     bind (comprehension (\<lambda>i. bind (timedelta 0 (5 * i)) (datetime_sub now))
             (map int [0..<nat N])) (\<lambda>newest_first.
     bind (linspace 100 350 N) (\<lambda>ramp.
       DataFrame (rev newest_first)
         (map2 (+) ramp (map (\<lambda>i. 0 + 8 * g i) [0..<nat N]))
         (map2 (+) (map (\<lambda>i. 4 + 0.005 * real i) [0..<nat N])
            (map (\<lambda>i. 0 + 0.2 * g (i + nat N)) [0..<nat N]))
         (map2 (+) (map (\<lambda>d. 1.3 * d) (map2 (+) ramp (map (\<lambda>i. 0 + 8 * g i) [0..<nat N])))
            (map (\<lambda>i. 0 + 5 * g (i + nat N + nat N)) [0..<nat N]))
         (clip (map (\<lambda>x. 75 + x) (map (\<lambda>i. 0 + 4 * g (i + nat N + nat N + nat N)) [0..<nat N])) 60 95)
         (map (\<lambda>x. remainder x 360) (map (\<lambda>c. 180 + c)
            (cumsum (map (\<lambda>i. 0 + 1.5 * g (i + nat N + nat N + nat N + nat N)) [0..<nat N]))))
         (clip (map (\<lambda>x. 2.5 + x)
            (map (\<lambda>i. 0 + 0.3 * g (i + nat N + nat N + nat N + nat N + nat N)) [0..<nat N])) 1.0 3.5)))"
  by (simp add: generate_sample_data_def random_normal_def Let_def)

lemma DataFrame_Inr_D:
  assumes "DataFrame ts a b c d e f = Inr df"
  shows "length df = length ts"
    and "i < length ts \<Longrightarrow>
         df ! i = \<lparr>timestamp = ts ! i, depth_m = a ! i, temperature_c = b ! i,
                   pressure_kpa = c ! i, power_pct = d ! i, heading_deg = e ! i,
                   speed_knots = f ! i\<rparr>"
proof -
  from assms have df: "df = map (\<lambda>i. \<lparr>timestamp = ts ! i, depth_m = a ! i,
      temperature_c = b ! i, pressure_kpa = c ! i, power_pct = d ! i, heading_deg = e ! i,
      speed_knots = f ! i\<rparr>) [0..<length ts]"
    by (simp add: DataFrame_def split: if_splits)
  show "length df = length ts" by (simp add: df)
  show "i < length ts \<Longrightarrow>
         df ! i = \<lparr>timestamp = ts ! i, depth_m = a ! i, temperature_c = b ! i,
                   pressure_kpa = c ! i, power_pct = d ! i, heading_deg = e ! i,
                   speed_knots = f ! i\<rparr>"
    by (simp add: df)
qed

lemma linspace_Inr_D:
  assumes "linspace a b N = Inr ramp"
  shows "0 \<le> N"
    and "ramp = map (\<lambda>i. if N = 1 then a else a + real i * ((b - a) / real_of_int (N - 1)))
                  [0..<nat N]"
  using assms by (simp_all add: linspace_def split: if_splits)

lemma timestamps_Inr_D:
  assumes "comprehension (\<lambda>i. bind (timedelta 0 (5 * i)) (datetime_sub now))
             (map int [0..<n]) = Inr newest_first"
  shows "length newest_first = n"
    and "i < n \<Longrightarrow> rev newest_first ! i = now - 300000000 * (int n - 1 - int i)"
proof -
  let ?f = "\<lambda>i. bind (timedelta 0 (5 * i)) (datetime_sub now)"
  from comprehension_Inr_D [OF assms]
  have len: "length newest_first = n"
    and nth: "\<And>j. j < n \<Longrightarrow> ?f (int j) = Inr (newest_first ! j)"
    by simp_all
  show "length newest_first = n" by (rule len)
  assume i: "i < n"
  then have j: "n - 1 - i < n" by simp
  from nth [OF j] step_cases [of "int (n - 1 - i)" now]
  have "newest_first ! (n - 1 - i) = now - 300000000 * int (n - 1 - i)" by simp
  moreover have "rev newest_first ! i = newest_first ! (n - 1 - i)"
    using i len by (simp add: rev_nth)
  moreover have "int (n - 1 - i) = int n - 1 - int i" using i by simp
  ultimately show "rev newest_first ! i = now - 300000000 * (int n - 1 - int i)" by simp
qed

lemma generate_Inr_E:
  assumes "generate_sample_data now g N = Inr df"
  obtains newest_first ramp where
    "comprehension (\<lambda>i. bind (timedelta 0 (5 * i)) (datetime_sub now))
           (map int [0..<nat N]) = Inr newest_first"
    and "linspace 100 350 N = Inr ramp"
    and "DataFrame (rev newest_first)
         (map2 (+) ramp (map (\<lambda>i. 0 + 8 * g i) [0..<nat N]))
         (map2 (+) (map (\<lambda>i. 4 + 0.005 * real i) [0..<nat N])
            (map (\<lambda>i. 0 + 0.2 * g (i + nat N)) [0..<nat N]))
         (map2 (+) (map (\<lambda>d. 1.3 * d) (map2 (+) ramp (map (\<lambda>i. 0 + 8 * g i) [0..<nat N])))
            (map (\<lambda>i. 0 + 5 * g (i + nat N + nat N)) [0..<nat N]))
         (clip (map (\<lambda>x. 75 + x) (map (\<lambda>i. 0 + 4 * g (i + nat N + nat N + nat N)) [0..<nat N])) 60 95)
         (map (\<lambda>x. remainder x 360) (map (\<lambda>c. 180 + c)
            (cumsum (map (\<lambda>i. 0 + 1.5 * g (i + nat N + nat N + nat N + nat N)) [0..<nat N]))))
         (clip (map (\<lambda>x. 2.5 + x)
            (map (\<lambda>i. 0 + 0.3 * g (i + nat N + nat N + nat N + nat N + nat N)) [0..<nat N])) 1.0 3.5)
       = Inr df"
proof (cases "comprehension (\<lambda>i. bind (timedelta 0 (5 * i)) (datetime_sub now))
           (map int [0..<nat N])")
  case (Inl e)
  with assms show ?thesis unfolding generate_unfold by (simp only: bind_Inl sum.distinct)
next
  case ts: (Inr newest_first)
  show ?thesis
  proof (cases "linspace 100 350 N")
    case (Inl e)
    with assms ts show ?thesis unfolding generate_unfold
      by (simp only: bind_Inl bind_Inr sum.distinct)
  next
    case (Inr ramp)
    with assms ts that [of newest_first ramp] show ?thesis unfolding generate_unfold
      by (simp only: bind_Inr)
  qed
qed

lemma nth_map2_plus:
  "i < length xs \<Longrightarrow> i < length ys \<Longrightarrow> map2 (+) xs ys ! i = xs ! i + (ys ! i :: real)"
  by simp

lemma nth_clip: "i < length xs \<Longrightarrow> clip xs lo hi ! i = min hi (max (xs ! i) lo)"
  by (simp add: clip_def)

lemma length_clip: "length (clip xs lo hi) = length xs"
  by (simp add: clip_def)

lemma nth_map_upt0: "i < n \<Longrightarrow> map f [0..<n] ! i = f i"
  by simp

lemma generate_rows:
  assumes "generate_sample_data now g N = Inr df"
  shows "0 \<le> N"
    and "length df = nat N"
    and "i < nat N \<Longrightarrow>
         df ! i =
           \<lparr>timestamp = now - 300000000 * (N - 1 - int i),
            depth_m = (if N = 1 then 100 else 100 + real i * ((350 - 100) / real_of_int (N - 1)))
                        + (0 + 8 * g i),
            temperature_c = 4 + 0.005 * real i + (0 + 0.2 * g (i + nat N)),
            pressure_kpa =
              1.3 * ((if N = 1 then 100 else 100 + real i * ((350 - 100) / real_of_int (N - 1)))
                        + (0 + 8 * g i))
                + (0 + 5 * g (i + nat N + nat N)),
            power_pct = min 95 (max (75 + (0 + 4 * g (i + nat N + nat N + nat N))) 60),
            heading_deg =
              remainder (180 + (\<Sum>k\<le>i. 0 + 1.5 * g (k + nat N + nat N + nat N + nat N))) 360,
            speed_knots =
              min 3.5 (max (2.5 + (0 + 0.3 * g (i + nat N + nat N + nat N + nat N + nat N))) 1.0)\<rparr>"
proof -
  define n where "n = nat N"
  define depths where "depths = map (\<lambda>i. 0 + 8 * g i) [0..<n]"
  define steps where "steps = map (\<lambda>i. 0 + 1.5 * g (i + n + n + n + n)) [0..<n]"
  from assms obtain newest_first ramp where
    ts: "comprehension (\<lambda>i. bind (timedelta 0 (5 * i)) (datetime_sub now))
           (map int [0..<n]) = Inr newest_first"
    and ramp: "linspace 100 350 N = Inr ramp"
    and frame: "DataFrame (rev newest_first)
         (map2 (+) ramp depths)
         (map2 (+) (map (\<lambda>i. 4 + 0.005 * real i) [0..<n])
            (map (\<lambda>i. 0 + 0.2 * g (i + n)) [0..<n]))
         (map2 (+) (map (\<lambda>d. 1.3 * d) (map2 (+) ramp depths))
            (map (\<lambda>i. 0 + 5 * g (i + n + n)) [0..<n]))
         (clip (map (\<lambda>x. 75 + x) (map (\<lambda>i. 0 + 4 * g (i + n + n + n)) [0..<n])) 60 95)
         (map (\<lambda>x. remainder x 360) (map (\<lambda>c. 180 + c) (cumsum steps)))
         (clip (map (\<lambda>x. 2.5 + x)
            (map (\<lambda>i. 0 + 0.3 * g (i + n + n + n + n + n)) [0..<n])) 1.0 3.5)
       = Inr df"
    unfolding n_def depths_def steps_def by (rule generate_Inr_E)
  from linspace_Inr_D [OF ramp] have N: "0 \<le> N"
    and ramp_eq: "ramp = map (\<lambda>i. if N = 1 then 100
          else 100 + real i * ((350 - 100) / real_of_int (N - 1))) [0..<n]"
    unfolding n_def by blast+
  show "0 \<le> N" by (rule N)
  have len: "length (rev newest_first) = n"
    using timestamps_Inr_D(1) [OF ts] by simp
  show "length df = nat N"
    using DataFrame_Inr_D(1) [OF frame] len by (simp only: n_def)
  assume "i < nat N"
  then have i: "i < n" by (simp only: n_def)
  have intn: "int n = N" using N by (simp add: n_def)
  have t: "rev newest_first ! i = now - 300000000 * (N - 1 - int i)"
    using timestamps_Inr_D(2) [OF ts i] by (simp only: intn)
  have lr: "length ramp = n" by (simp add: ramp_eq)
  have r: "ramp ! i = (if N = 1 then 100 else 100 + real i * ((350 - 100) / real_of_int (N - 1)))"
    unfolding ramp_eq using i by (rule nth_map_upt0)
  have ld: "length depths = n" by (simp add: depths_def)
  have d: "depths ! i = 0 + 8 * g i"
    unfolding depths_def using i by (rule nth_map_upt0)
  have depth: "map2 (+) ramp depths ! i =
      (if N = 1 then 100 else 100 + real i * ((350 - 100) / real_of_int (N - 1))) + (0 + 8 * g i)"
    using i lr ld by (simp only: nth_map2_plus r d)
  have temp: "map2 (+) (map (\<lambda>i. 4 + 0.005 * real i) [0..<n])
            (map (\<lambda>i. 0 + 0.2 * g (i + n)) [0..<n]) ! i
       = 4 + 0.005 * real i + (0 + 0.2 * g (i + n))"
    using i by (simp only: nth_map2_plus nth_map_upt0 length_map length_upt diff_zero)
  have ldd: "length (map2 (+) ramp depths) = n" using lr ld by simp
  have pres: "map2 (+) (map (\<lambda>d. 1.3 * d) (map2 (+) ramp depths))
            (map (\<lambda>i. 0 + 5 * g (i + n + n)) [0..<n]) ! i
       = 1.3 * ((if N = 1 then 100 else 100 + real i * ((350 - 100) / real_of_int (N - 1)))
                   + (0 + 8 * g i)) + (0 + 5 * g (i + n + n))"
    using i ldd
    by (simp only: nth_map2_plus nth_map_upt0 length_map length_upt diff_zero nth_map depth nth_upt add_0)
  have pow: "clip (map (\<lambda>x. 75 + x) (map (\<lambda>i. 0 + 4 * g (i + n + n + n)) [0..<n])) 60 95 ! i
       = min 95 (max (75 + (0 + 4 * g (i + n + n + n))) 60)"
    using i by (simp only: nth_clip nth_map nth_map_upt0 length_map length_upt diff_zero nth_upt add_0)
  have spd: "clip (map (\<lambda>x. 2.5 + x)
            (map (\<lambda>i. 0 + 0.3 * g (i + n + n + n + n + n)) [0..<n])) 1.0 3.5 ! i
       = min 3.5 (max (2.5 + (0 + 0.3 * g (i + n + n + n + n + n))) 1.0)"
    using i by (simp only: nth_clip nth_map nth_map_upt0 length_map length_upt diff_zero nth_upt add_0)
  have c: "cumsum steps ! i = (\<Sum>k\<le>i. 0 + 1.5 * g (k + n + n + n + n))"
    unfolding steps_def using i by (rule nth_cumsum_map)
  have ls: "length (cumsum steps) = n" by (simp add: length_cumsum steps_def)
  have head: "map (\<lambda>x. remainder x 360) (map (\<lambda>c. 180 + c) (cumsum steps)) ! i
       = remainder (180 + (\<Sum>k\<le>i. 0 + 1.5 * g (k + n + n + n + n))) 360"
    using i ls by (simp only: nth_map length_map c)
  from i len have "i < length (rev newest_first)" by simp
  from DataFrame_Inr_D(2) [OF frame this]
  have "df ! i =
           \<lparr>timestamp = now - 300000000 * (N - 1 - int i),
            depth_m = (if N = 1 then 100 else 100 + real i * ((350 - 100) / real_of_int (N - 1)))
                        + (0 + 8 * g i),
            temperature_c = 4 + 0.005 * real i + (0 + 0.2 * g (i + n)),
            pressure_kpa =
              1.3 * ((if N = 1 then 100 else 100 + real i * ((350 - 100) / real_of_int (N - 1)))
                        + (0 + 8 * g i))
                + (0 + 5 * g (i + n + n)),
            power_pct = min 95 (max (75 + (0 + 4 * g (i + n + n + n))) 60),
            heading_deg =
              remainder (180 + (\<Sum>k\<le>i. 0 + 1.5 * g (k + n + n + n + n))) 360,
            speed_knots =
              min 3.5 (max (2.5 + (0 + 0.3 * g (i + n + n + n + n + n))) 1.0)\<rparr>"
    by (simp only: t depth temp pres pow spd head)
  then show "df ! i =
           \<lparr>timestamp = now - 300000000 * (N - 1 - int i),
            depth_m = (if N = 1 then 100 else 100 + real i * ((350 - 100) / real_of_int (N - 1)))
                        + (0 + 8 * g i),
            temperature_c = 4 + 0.005 * real i + (0 + 0.2 * g (i + nat N)),
            pressure_kpa =
              1.3 * ((if N = 1 then 100 else 100 + real i * ((350 - 100) / real_of_int (N - 1)))
                        + (0 + 8 * g i))
                + (0 + 5 * g (i + nat N + nat N)),
            power_pct = min 95 (max (75 + (0 + 4 * g (i + nat N + nat N + nat N))) 60),
            heading_deg =
              remainder (180 + (\<Sum>k\<le>i. 0 + 1.5 * g (k + nat N + nat N + nat N + nat N))) 360,
            speed_knots =
              min 3.5 (max (2.5 + (0 + 0.3 * g (i + nat N + nat N + nat N + nat N + nat N))) 1.0)\<rparr>"
    by (simp only: n_def)
qed

lemma generate_total:
  assumes "valid_datetime now" "1 \<le> N" "300000000 * (N - 1) \<le> now"
  shows "\<exists>df. generate_sample_data now g N = Inr df"
proof -
  have "comprehension (\<lambda>i. bind (timedelta 0 (5 * i)) (datetime_sub now))
          (map int [0..<nat N]) = Inr (map (\<lambda>i. now - 300000000 * i) (map int [0..<nat N]))"
  proof (rule comprehension_total)
    fix x assume "x \<in> set (map int [0..<nat N])"
    then have "0 \<le> x" "x \<le> N - 1" by auto
    then have "300000000 * x \<le> now" using assms(3) by simp
    with assms(1) \<open>0 \<le> x\<close>
    show "bind (timedelta 0 (5 * x)) (datetime_sub now) = Inr (now - 300000000 * x)"
      by (rule step_ok)
  qed
  moreover have "\<exists>ramp. linspace 100 350 N = Inr ramp \<and> length ramp = nat N"
    using assms(2) by (simp add: linspace_def)
  ultimately show ?thesis
    unfolding generate_unfold
    by (auto simp: DataFrame_def clip_def length_cumsum)
qed

lemma generate_raises:
  assumes "1 \<le> N" "now < 300000000 * (N - 1)"
  shows "generate_sample_data now g N = Inl OverflowError"
proof -
  have "comprehension (\<lambda>i. bind (timedelta 0 (5 * i)) (datetime_sub now))
          (map int [0..<nat N]) = Inl OverflowError"
  proof (rule comprehension_raises)
    show "N - 1 \<in> set (map int [0..<nat N])"
      using assms(1) by (auto simp: image_iff intro!: bexI [of _ "nat (N - 1)"])
    show "bind (timedelta 0 (5 * (N - 1))) (datetime_sub now) = Inl OverflowError"
      using assms(2) by (rule step_fails)
  next
    fix x' e'
    assume "bind (timedelta 0 (5 * x')) (datetime_sub now) = Inl e'"
    with step_cases [of x' now] show "e' = OverflowError" by simp
  qed
  then show ?thesis unfolding generate_unfold by simp
qed

subsection \<open>Rounding and the remainder\<close>



lemma round_half_even_of_int [simp]: "round_half_even (of_int k) = k"
  by (simp add: round_half_even_def)








section \<open>Properties of the filter\<close>

subsection \<open>Rows within a window\<close>

lemma series_max_Some:
  "df \<noteq> [] \<Longrightarrow> series_max (map timestamp df) = Some (Max (timestamp ` set df))"
  by (simp add: series_max_def)

lemma rows_since_filter:
  "rows_since window df = filter (\<lambda>r. Max (timestamp ` set df) - window \<le> timestamp r) df"
  by (cases "df = []") (simp_all add: rows_since_def series_max_def)

lemma rows_since_Nil [simp]: "rows_since window [] = []"
  by (simp add: rows_since_filter)

lemma subseq_rows_since: "subseq (rows_since window df) df"
  by (simp add: rows_since_filter)

lemma newest_in_rows_since:
  assumes "df \<noteq> []" "0 \<le> window"
  shows "\<exists>r \<in> set (rows_since window df). timestamp r = Max (timestamp ` set df)"
proof -
  have "Max (timestamp ` set df) \<in> timestamp ` set df"
    using assms(1) by (intro Max_in) simp_all
  then obtain r where "r \<in> set df" "timestamp r = Max (timestamp ` set df)" by auto
  then show ?thesis using assms(2) by (auto simp: rows_since_filter)
qed

lemma rows_since_nonempty:
  "df \<noteq> [] \<Longrightarrow> 0 \<le> window \<Longrightarrow> rows_since window df \<noteq> []"
  using newest_in_rows_since [of df window] by auto

lemma Max_rows_since:
  assumes "df \<noteq> []" "0 \<le> window"
  shows "Max (timestamp ` set (rows_since window df)) = Max (timestamp ` set df)"
proof (rule antisym)
  have sub: "set (rows_since window df) \<subseteq> set df" by (auto simp: rows_since_filter)
  have ne: "rows_since window df \<noteq> []" using assms by (rule rows_since_nonempty)
  show "Max (timestamp ` set (rows_since window df)) \<le> Max (timestamp ` set df)"
    using sub ne by (intro Max_mono) auto
  from newest_in_rows_since [OF assms] obtain r where
    "r \<in> set (rows_since window df)" "timestamp r = Max (timestamp ` set df)" by auto
  then show "Max (timestamp ` set df) \<le> Max (timestamp ` set (rows_since window df))"
    by (metis Max_ge finite_imageI finite_set imageI)
qed

lemma rows_since_idem:
  assumes "0 \<le> w" "w \<le> w'"
  shows "rows_since w' (rows_since w df) = rows_since w df"
proof (cases "df = []")
  case True
  then show ?thesis by simp
next
  case False
  then have m: "Max (timestamp ` set (rows_since w df)) = Max (timestamp ` set df)"
    using assms(1) by (rule Max_rows_since)
  have "filter (\<lambda>r. Max (timestamp ` set df) - w' \<le> timestamp r) (rows_since w df)
      = rows_since w df"
  proof (rule filter_True, intro ballI)
    fix r assume "r \<in> set (rows_since w df)"
    then have "Max (timestamp ` set df) - w \<le> timestamp r" by (simp add: rows_since_filter)
    then show "Max (timestamp ` set df) - w' \<le> timestamp r" using assms(2) by simp
  qed
  then show ?thesis
    using m by (simp add: rows_since_filter [of w' "rows_since w df"])
qed


subsection \<open>The filter on the objects of a session\<close>

lemma frames_render [simp]: "frames (render e s) = frames s"
  by (simp add: render_def)

lemma MISSION_render [simp]: "MISSION (render e s) = MISSION s"
  by (simp add: render_def)

lemma frames_new_frame:
  "frames (snd (new_frame rows s)) = frames s @ [rows]"
  "fst (new_frame rows s) = length (frames s)"
  "MISSION (snd (new_frame rows s)) = MISSION s"
  by (simp_all add: new_frame_def)

lemma timedelta_option:
  "time_options selection = Some m \<Longrightarrow> timedelta 0 m = Inr (m * 60000000) \<and> 0 \<le> m"
  by (cases selection) (simp_all add: timedelta_def Let_def)

lemma sidebar_filters_window:
  assumes "time_options selection = Some m"
  shows "sidebar_filters selection df s =
           Inr (new_frame (rows_since (m * 60000000) (frames s ! df))
                 (render (Sidebar_radio ''Time range'' time_labels 2)
                    (render (Sidebar_header ''Filters'') s)))"
  using timedelta_option [OF assms] assms
  by (simp add: sidebar_filters_def Let_def)

lemma sidebar_filters_all:
  assumes "time_options selection = None"
  shows "sidebar_filters selection df s =
           Inr (df, render (Sidebar_radio ''Time range'' time_labels 2)
                      (render (Sidebar_header ''Filters'') s))"
  using assms by (simp add: sidebar_filters_def Let_def)

text \<open>What a call of the filter returns and leaves behind, for either kind of selection.\<close>

lemma sidebar_filters_result:
  assumes "df < length (frames s)"
  obtains r s' where "sidebar_filters selection df s = Inr (r, s')"
    and "r < length (frames s')"
    and "frames s' ! r = (case time_options selection of None \<Rightarrow> frames s ! df
           | Some m \<Rightarrow> rows_since (m * 60000000) (frames s ! df))"
    and "\<forall>k<length (frames s). frames s' ! k = frames s ! k"
    and "length (frames s) \<le> length (frames s')"
    and "MISSION s' = MISSION s"
proof (cases "time_options selection")
  case None
  show ?thesis
    by (rule that [OF sidebar_filters_all [OF None]]) (use assms None in simp_all)
next
  case (Some m)
  let ?s = "render (Sidebar_radio ''Time range'' time_labels 2)
              (render (Sidebar_header ''Filters'') s)"
  let ?rows = "rows_since (m * 60000000) (frames s ! df)"
  have eq: "sidebar_filters selection df s = Inr (length (frames s), snd (new_frame ?rows ?s))"
    using sidebar_filters_window [OF Some, of df s] by (simp add: new_frame_def)
  show ?thesis
    by (rule that [OF eq]) (simp_all add: frames_new_frame Some nth_append)
qed

subsection \<open>Series with a stride of five minutes\<close>

lemma Max_regular:
  assumes len: "length df = n" and n: "0 < n"
    and ts: "\<And>i. i < n \<Longrightarrow> timestamp (df ! i) = T - (int n - 1 - int i) * 300000000"
  shows "Max (timestamp ` set df) = T"
proof (rule Max_eqI)
  show "finite (timestamp ` set df)" by simp
  fix y assume "y \<in> timestamp ` set df"
  then obtain r where "r \<in> set df" "y = timestamp r" by blast
  then obtain i where "i < n" "y = timestamp (df ! i)"
    using len by (auto simp: in_set_conv_nth)
  then show "y \<le> T" using ts [of i] by simp
next
  have "df ! (n - 1) \<in> set df" using len n by simp
  moreover have "timestamp (df ! (n - 1)) = T" using ts [of "n - 1"] n by simp
  ultimately show "T \<in> timestamp ` set df" by force
qed

lemma rows_since_regular:
  assumes len: "length df = n" and k: "k < n"
    and ts: "\<And>i. i < n \<Longrightarrow> timestamp (df ! i) = T - (int n - 1 - int i) * 300000000"
  shows "rows_since (int k * 300000000) df = drop (n - 1 - k) df"
proof -
  let ?m = "n - 1 - k"
  let ?keep = "\<lambda>r. T - int k * 300000000 \<le> timestamp r"
  from k have n: "0 < n" by simp
  have newest: "Max (timestamp ` set df) = T" using len n ts by (rule Max_regular)
  have old: "filter ?keep (take ?m df) = []"
  proof (rule filter_False, intro ballI)
    fix r assume "r \<in> set (take ?m df)"
    then obtain i where i: "i < ?m" and r: "r = df ! i"
      using len by (auto simp: in_set_conv_nth)
    from i k have "i < n" "int k < int n - 1 - int i" by auto
    then show "\<not> ?keep r" using ts [of i] r by simp
  qed
  have recent: "filter ?keep (drop ?m df) = drop ?m df"
  proof (rule filter_True, intro ballI)
    fix r assume "r \<in> set (drop ?m df)"
    then obtain i where i: "i < n - ?m" and r: "r = df ! (?m + i)"
      using len by (auto simp: in_set_conv_nth)
    from i k have "?m + i < n" "int n - 1 - int (?m + i) \<le> int k" by auto
    then show "?keep r" using ts [of "?m + i"] r by simp
  qed
  have "filter ?keep (take ?m df @ drop ?m df) = drop ?m df"
    unfolding filter_append old recent by simp
  then show ?thesis by (simp add: rows_since_filter newest)
qed


section \<open>Properties of the rendering functions and of the script\<close>

lemma page_render [simp]: "page (render e s) = page s @ [e]"
  by (simp add: render_def)

lemma iloc_last:
  "iloc df (- 1) = (if df = [] then Inl IndexError else Inr (last df))"
proof (cases "df = []")
  case True
  then show ?thesis by (simp add: iloc_def)
next
  case False
  then have "0 < length df" by simp
  then have "nat (int (length df) - 1) = length df - 1" by simp
  with False show ?thesis by (simp add: iloc_def Let_def last_conv_nth)
qed

lemma iloc_before_last:
  "iloc df (- 2) = (if length df < 2 then Inl IndexError else Inr (df ! (length df - 2)))"
proof (cases "length df < 2")
  case True
  then show ?thesis by (simp add: iloc_def Let_def)
next
  case False
  then have "nat (int (length df) - 2) = length df - 2" by simp
  with False show ?thesis by (simp add: iloc_def Let_def)
qed

lemma mission_overview_raises:
  assumes "length (frames s ! df) < 2"
  shows "mission_overview now st df s = Inl IndexError"
proof (cases "frames s ! df = []")
  case True
  then show ?thesis by (simp add: mission_overview_def Let_def iloc_last)
next
  case False
  with assms show ?thesis
    by (simp add: mission_overview_def Let_def iloc_last iloc_before_last)
qed

lemma mission_overview_returns:
  assumes "2 \<le> length (frames s ! df)"
  shows "\<exists>s'. mission_overview now st df s = Inr s'
           \<and> frames s' = frames s \<and> MISSION s' = MISSION s
           \<and> drop (length (page s) + 7) (page s') =
               [Metric ''Depth'' (Number (depth_m (last (frames s ! df))))
                  (Some (Number (depth_m (last (frames s ! df))
                     - depth_m (frames s ! df ! (length (frames s ! df) - 2))))),
                Metric ''Temperature'' (Number (temperature_c (last (frames s ! df))))
                  (Some (Number (temperature_c (last (frames s ! df))
                     - temperature_c (frames s ! df ! (length (frames s ! df) - 2))))),
                Metric ''Pressure'' (Number (pressure_kpa (last (frames s ! df)))) None,
                Metric ''Power Reserve'' (Number (power_pct (last (frames s ! df))))
                  (Some (Number (power_pct (last (frames s ! df))
                     - power_pct (frames s ! df ! (length (frames s ! df) - 2)))))]"
proof -
  from assms have ne: "frames s ! df \<noteq> []" and two: "\<not> length (frames s ! df) < 2" by auto
  show ?thesis
    using ne two by (simp add: mission_overview_def Let_def iloc_last iloc_before_last)
qed

lemma sidebar_filters_MISSION:
  assumes "sidebar_filters selection df s = Inr (r, s')"
  shows "MISSION s' = MISSION s"
proof (cases "time_options selection")
  case None
  from sidebar_filters_all [OF None, of df s] assms show ?thesis by auto
next
  case (Some m)
  from sidebar_filters_window [OF Some, of df s] assms show ?thesis
    by (auto simp: new_frame_def)
qed

lemma mission_overview_keeps:
  assumes "mission_overview now st df s = Inr s'"
  shows "MISSION s' = MISSION s \<and> frames s' = frames s"
proof (cases "length (frames s ! df) < 2")
  case True
  from mission_overview_raises [OF True, of now st] assms show ?thesis by simp
next
  case False
  then have "2 \<le> length (frames s ! df)" by simp
  from mission_overview_returns [OF this, of now st] assms show ?thesis by auto
qed

lemma plot_timeseries_returns:
  "\<exists>s'. plot_timeseries df s = Inr s' \<and> MISSION s' = MISSION s \<and> frames s' = frames s"
  by (simp add: plot_timeseries_def Let_def)

lemma engineering_panel_returns:
  assumes "frames s ! df \<noteq> []"
  shows "\<exists>s'. engineering_panel df s = Inr s' \<and> MISSION s' = MISSION s \<and> frames s' = frames s"
  using assms by (simp add: engineering_panel_def Let_def iloc_last)

lemma engineering_panel_keeps:
  assumes "engineering_panel df s = Inr s'"
  shows "MISSION s' = MISSION s \<and> frames s' = frames s"
proof (cases "frames s ! df = []")
  case True
  with assms show ?thesis by (simp add: engineering_panel_def Let_def iloc_last)
next
  case False
  from engineering_panel_returns [OF False] assms show ?thesis by auto
qed

lemma telemetry_table_returns:
  "\<exists>s'. telemetry_table df s = Inr s' \<and> MISSION s' = MISSION s \<and> frames s' = frames s"
  by (simp add: telemetry_table_def Let_def)

lemma timedelta_3_27: "timedelta 3 27 = Inr 12420000000"
  by (simp add: timedelta_def Let_def)

lemma script_Inr_E:
  assumes "script t1 t2 t3 g selection = Inr s'"
  obtains telemetry filtered_df s1 s2 s3 s4 s5 where
    "datetime_sub t1 12420000000 = Inr (t1 - 12420000000)"
    and "generate_sample_data t2 g 120 = Inr telemetry"
    and "sidebar_filters selection 0
           \<lparr>frames = [telemetry],
            MISSION = \<lparr>mission_name = ''Poseidon-7 Survey'',
                    objective = ''Map subsea pipeline integrity and capture HD imagery'',
                    location = ''North Sea Block 15'',
                    pilot = ''Casey Morgan'',
                    supervisor = ''Lt. Priya Desai'',
                    start_time = t1 - 12420000000,
                    status = ''Active'',
                    notes' = ''Monitoring cross-current turbulence; maintain depth < 350m.''\<rparr>,
            page = [Page_config ''ROV Operations Dashboard'']\<rparr> = Inr (filtered_df, s1)"
    and "mission_overview t3 (MISSION s1) filtered_df s1 = Inr s2"
    and "plot_timeseries filtered_df s2 = Inr s3"
    and "engineering_panel filtered_df s3 = Inr s4"
    and "telemetry_table filtered_df s4 = Inr s5"
    and "MISSION s' = MISSION s5" and "frames s' = frames s5"
proof -
  from assms obtain started where
    started: "datetime_sub t1 12420000000 = Inr started"
    and rest: "bind (generate_sample_data t2 g 120) (\<lambda>telemetry.
       bind (sidebar_filters selection 0
           \<lparr>frames = [telemetry],
            MISSION = \<lparr>mission_name = ''Poseidon-7 Survey'',
                    objective = ''Map subsea pipeline integrity and capture HD imagery'',
                    location = ''North Sea Block 15'',
                    pilot = ''Casey Morgan'',
                    supervisor = ''Lt. Priya Desai'',
                    start_time = started,
                    status = ''Active'',
                    notes' = ''Monitoring cross-current turbulence; maintain depth < 350m.''\<rparr>,
            page = [Page_config ''ROV Operations Dashboard'']\<rparr>) (\<lambda>(filtered_df, s1).
        bind (mission_overview t3 (MISSION s1) filtered_df s1) (\<lambda>s2.
        bind (plot_timeseries filtered_df s2) (\<lambda>s3.
        bind (engineering_panel filtered_df s3) (\<lambda>s4.
        bind (telemetry_table filtered_df s4) (\<lambda>s5.
        Inr (render (Sidebar_write
               ''This dashboard uses synthetic data for demonstration. Replace the data generation logic with live telemetry integration for production use.'')
              (render (Sidebar_markdown ''---'') s5)))))))) = Inr s'"
    unfolding script_def timedelta_3_27 bind_Inr Let_def bind_Inr_iff [of "datetime_sub _ _"]
    by blast
  from started have st: "started = t1 - 12420000000"
    by (simp add: datetime_sub_def split: if_splits)
  from rest obtain telemetry where gen: "generate_sample_data t2 g 120 = Inr telemetry"
    and rest2: "bind (sidebar_filters selection 0
           \<lparr>frames = [telemetry],
            MISSION = \<lparr>mission_name = ''Poseidon-7 Survey'',
                    objective = ''Map subsea pipeline integrity and capture HD imagery'',
                    location = ''North Sea Block 15'',
                    pilot = ''Casey Morgan'',
                    supervisor = ''Lt. Priya Desai'',
                    start_time = started,
                    status = ''Active'',
                    notes' = ''Monitoring cross-current turbulence; maintain depth < 350m.''\<rparr>,
            page = [Page_config ''ROV Operations Dashboard'']\<rparr>) (\<lambda>(filtered_df, s1).
        bind (mission_overview t3 (MISSION s1) filtered_df s1) (\<lambda>s2.
        bind (plot_timeseries filtered_df s2) (\<lambda>s3.
        bind (engineering_panel filtered_df s3) (\<lambda>s4.
        bind (telemetry_table filtered_df s4) (\<lambda>s5.
        Inr (render (Sidebar_write
               ''This dashboard uses synthetic data for demonstration. Replace the data generation logic with live telemetry integration for production use.'')
              (render (Sidebar_markdown ''---'') s5))))))) = Inr s'"
    unfolding bind_Inr_iff [of "generate_sample_data _ _ _"] by blast
  from rest2 obtain filtered_df s1 where
    filt: "sidebar_filters selection 0
           \<lparr>frames = [telemetry],
            MISSION = \<lparr>mission_name = ''Poseidon-7 Survey'',
                    objective = ''Map subsea pipeline integrity and capture HD imagery'',
                    location = ''North Sea Block 15'',
                    pilot = ''Casey Morgan'',
                    supervisor = ''Lt. Priya Desai'',
                    start_time = started,
                    status = ''Active'',
                    notes' = ''Monitoring cross-current turbulence; maintain depth < 350m.''\<rparr>,
            page = [Page_config ''ROV Operations Dashboard'']\<rparr> = Inr (filtered_df, s1)"
    and rest3: "bind (mission_overview t3 (MISSION s1) filtered_df s1) (\<lambda>s2.
        bind (plot_timeseries filtered_df s2) (\<lambda>s3.
        bind (engineering_panel filtered_df s3) (\<lambda>s4.
        bind (telemetry_table filtered_df s4) (\<lambda>s5.
        Inr (render (Sidebar_write
               ''This dashboard uses synthetic data for demonstration. Replace the data generation logic with live telemetry integration for production use.'')
              (render (Sidebar_markdown ''---'') s5)))))) = Inr s'"
    unfolding bind_Inr_iff [of "sidebar_filters _ _ _"] by (auto split: prod.splits)
  from rest3 obtain s2 s3 s4 s5 where
    ov: "mission_overview t3 (MISSION s1) filtered_df s1 = Inr s2"
    and pl: "plot_timeseries filtered_df s2 = Inr s3"
    and en: "engineering_panel filtered_df s3 = Inr s4"
    and ta: "telemetry_table filtered_df s4 = Inr s5"
    and fin: "s' = render (Sidebar_write
               ''This dashboard uses synthetic data for demonstration. Replace the data generation logic with live telemetry integration for production use.'')
              (render (Sidebar_markdown ''---'') s5)"
    unfolding bind_Inr_iff by auto
  show ?thesis
    by (rule that [OF started [unfolded st] gen filt [unfolded st] ov pl en ta])
      (simp_all add: fin)
qed

lemma window_of_120:
  assumes len: "length df = 120"
    and ts: "\<And>i. i < 120 \<Longrightarrow> timestamp (df ! i) = T - (int 120 - 1 - int i) * 300000000"
    and sel: "time_options selection = Some m"
  shows "7 \<le> length (rows_since (m * 60000000) df)"
proof -
  have window: "length (rows_since (int k * 300000000) df) = k + 1" if "k < 120" for k
  proof -
    have "rows_since (int k * 300000000) df = drop (120 - 1 - k) df"
      using len that ts by (rule rows_since_regular)
    then show ?thesis using len that by simp
  qed
  from sel consider "m = 30" | "m = 60" | "m = 180" | "m = 360"
    by (cases selection) simp_all
  then show ?thesis
  proof cases
    case 1
    with window [of 6] show ?thesis by simp
  next
    case 2
    with window [of 12] show ?thesis by simp
  next
    case 3
    with window [of 36] show ?thesis by simp
  next
    case 4
    with window [of 72] show ?thesis by simp
  qed
qed

lemma script_filtered_rows:
  assumes gen: "generate_sample_data t2 g 120 = Inr telemetry"
    and filt: "sidebar_filters selection 0 \<lparr>frames = [telemetry], MISSION = m, page = p\<rparr>
                 = Inr (filtered_df, s1)"
  shows "7 \<le> length (frames s1 ! filtered_df)"
proof -
  have len: "length telemetry = 120" using generate_rows(2) [OF gen] by simp
  have ts: "timestamp (telemetry ! i) = t2 - (int 120 - 1 - int i) * 300000000"
    if "i < 120" for i
  proof -
    from that have "i < nat 120" by simp
    from generate_rows(3) [OF gen this] show ?thesis by simp
  qed
  let ?s0 = "\<lparr>frames = [telemetry], MISSION = m, page = p\<rparr>"
  have "0 < length (frames ?s0)" by simp
  then obtain r s' where call: "sidebar_filters selection 0 ?s0 = Inr (r, s')"
    and rows: "frames s' ! r = (case time_options selection of None \<Rightarrow> frames ?s0 ! 0
           | Some w \<Rightarrow> rows_since (w * 60000000) (frames ?s0 ! 0))"
    by (rule sidebar_filters_result)
  from call filt have eq: "r = filtered_df" "s' = s1" by simp_all
  show ?thesis
  proof (cases "time_options selection")
    case None
    with rows len show ?thesis unfolding eq by simp
  next
    case (Some w)
    from window_of_120 [OF len ts Some] rows Some show ?thesis unfolding eq by simp
  qed
qed

lemma script_MISSION:
  assumes "script t1 t2 t3 g selection = Inr s'"
  shows "MISSION s' =
           \<lparr>mission_name = ''Poseidon-7 Survey'',
            objective = ''Map subsea pipeline integrity and capture HD imagery'',
            location = ''North Sea Block 15'',
            pilot = ''Casey Morgan'',
            supervisor = ''Lt. Priya Desai'',
            start_time = t1 - 12420000000,
            status = ''Active'',
            notes' = ''Monitoring cross-current turbulence; maintain depth < 350m.''\<rparr>"
proof -
  from assms obtain telemetry filtered_df s1 s2 s3 s4 s5 where
    filt: "sidebar_filters selection 0
           \<lparr>frames = [telemetry],
            MISSION = \<lparr>mission_name = ''Poseidon-7 Survey'',
                    objective = ''Map subsea pipeline integrity and capture HD imagery'',
                    location = ''North Sea Block 15'',
                    pilot = ''Casey Morgan'',
                    supervisor = ''Lt. Priya Desai'',
                    start_time = t1 - 12420000000,
                    status = ''Active'',
                    notes' = ''Monitoring cross-current turbulence; maintain depth < 350m.''\<rparr>,
            page = [Page_config ''ROV Operations Dashboard'']\<rparr> = Inr (filtered_df, s1)"
    and ov: "mission_overview t3 (MISSION s1) filtered_df s1 = Inr s2"
    and pl: "plot_timeseries filtered_df s2 = Inr s3"
    and en: "engineering_panel filtered_df s3 = Inr s4"
    and ta: "telemetry_table filtered_df s4 = Inr s5"
    and fin: "MISSION s' = MISSION s5"
    by (rule script_Inr_E)
  have "MISSION s5 = MISSION s4" using telemetry_table_returns [of filtered_df s4] ta by auto
  also have "\<dots> = MISSION s3" using engineering_panel_keeps [OF en] by simp
  also have "\<dots> = MISSION s2" using plot_timeseries_returns [of filtered_df s2] pl by auto
  also have "\<dots> = MISSION s1" using mission_overview_keeps [OF ov] by simp
  also note sidebar_filters_MISSION [OF filt]
  finally show ?thesis using fin by simp
qed

lemma script_total:
  assumes t1: "valid_datetime t1" "12420000000 \<le> t1"
    and t2: "valid_datetime t2" "300000000 * 119 \<le> t2"
  shows "\<exists>s'. script t1 t2 t3 g selection = Inr s'"
proof -
  let ?mission = "\<lparr>mission_name = ''Poseidon-7 Survey'',
                    objective = ''Map subsea pipeline integrity and capture HD imagery'',
                    location = ''North Sea Block 15'',
                    pilot = ''Casey Morgan'',
                    supervisor = ''Lt. Priya Desai'',
                    start_time = t1 - 12420000000,
                    status = ''Active'',
                    notes' = ''Monitoring cross-current turbulence; maintain depth < 350m.''\<rparr>"
  have started: "datetime_sub t1 12420000000 = Inr (t1 - 12420000000)"
    using t1 by (simp add: datetime_sub_def valid_datetime_def)
  have "\<exists>df. generate_sample_data t2 g 120 = Inr df"
    using t2 by (intro generate_total) simp_all
  then obtain telemetry where gen: "generate_sample_data t2 g 120 = Inr telemetry" ..
  let ?s0 = "\<lparr>frames = [telemetry], MISSION = ?mission,
               page = [Page_config ''ROV Operations Dashboard'']\<rparr>"
  have "0 < length (frames ?s0)" by simp
  then obtain filtered_df s1 where filt: "sidebar_filters selection 0 ?s0 = Inr (filtered_df, s1)"
    by (rule sidebar_filters_result)
  have rows: "7 \<le> length (frames s1 ! filtered_df)"
    using gen filt by (rule script_filtered_rows)
  then have "2 \<le> length (frames s1 ! filtered_df)" by simp
  from mission_overview_returns [OF this, of t3 "MISSION s1"] obtain s2 where
    ov: "mission_overview t3 (MISSION s1) filtered_df s1 = Inr s2" and f2: "frames s2 = frames s1"
    by blast
  from plot_timeseries_returns [of filtered_df s2] obtain s3 where
    pl: "plot_timeseries filtered_df s2 = Inr s3" and f3: "frames s3 = frames s2"
    by blast
  have "frames s3 ! filtered_df \<noteq> []" using rows f2 f3 by auto
  from engineering_panel_returns [OF this] obtain s4 where
    en: "engineering_panel filtered_df s3 = Inr s4"
    by blast
  from telemetry_table_returns [of filtered_df s4] obtain s5 where
    ta: "telemetry_table filtered_df s4 = Inr s5"
    by blast
  show ?thesis
    by (simp add: script_def timedelta_3_27 started gen filt ov pl en ta)
qed

subsection \<open>A worked generation\<close>

lemma two_timestamps:
  "comprehension (\<lambda>i. bind (timedelta 0 (5 * i)) (datetime_sub 63929260800000000))
     (map int [0..<nat 2]) = Inr [63929260800000000, 63929260500000000]"
  by (simp add: upt_rec timedelta_def datetime_sub_def valid_datetime_def datetime_max_def Let_def)

lemma generate_two:
  "generate_sample_data t_2026 counting 2 =
   Inr [\<lparr>timestamp = 63929260500000000, depth_m = 100, temperature_c = 4.4,
         pressure_kpa = 150, power_pct = 95, heading_deg = 192, speed_knots = 3.5\<rparr>,
        \<lparr>timestamp = 63929260800000000, depth_m = 358, temperature_c = 4.605,
         pressure_kpa = 490.4, power_pct = 95, heading_deg = 205.5, speed_knots = 3.5\<rparr>]"
  unfolding generate_unfold t_2026_def two_timestamps
  by (simp add: linspace_def DataFrame_def clip_def cumsum_def remainder_def fmod_def
      upt_rec counting_def)

lemma valid_t_2026: "valid_datetime t_2026"
  by (simp add: valid_datetime_def t_2026_def datetime_max_def)

subsection \<open>Claims about the generator\<close>

text \<open>
  C2, as the specification states it: for every sample count \<open>N \<ge> 1\<close> and current instant
  \<open>T\<close> the generator returns \<open>N\<close> samples, five minutes apart, oldest first, the newest
  at \<open>T\<close>; generation always succeeds. The last part fails: the oldest timestamp
  \<open>T - 5 (N - 1)\<close> minutes has to be a \<^verbatim>\<open>datetime\<close>, and on 2026-11-03 a request for
  300 million samples reaches back before year 1, where \<^verbatim>\<open>now - timedelta(...)\<close>
  raises OverflowError.
\<close>

theorem generate_sample_data_overflow:
  "generate_sample_data t_2026 counting 300000000 = Inl OverflowError"
  by (rule generate_raises) (simp_all add: t_2026_def)

text \<open>
  C2, amended: for every sample count \<open>N \<ge> 1\<close> and current instant \<open>T\<close>, if the instant
  \<open>T - 5 (N - 1)\<close> minutes is not before \<^verbatim>\<open>datetime.min\<close>, the generator returns
  exactly \<open>N\<close> samples; sample \<open>i\<close> has the timestamp \<open>T - 5 (N - 1 - i)\<close> minutes, so
  that consecutive samples are exactly five minutes apart, oldest first, and the last one
  is at \<open>T\<close>. Otherwise the generator raises OverflowError.
\<close>

theorem generate_sample_data_timestamps:
  assumes "valid_datetime T" and "1 \<le> N"
  shows "(300000000 * (N - 1) \<le> T \<longrightarrow>
           (\<exists>df. generate_sample_data T g N = Inr df \<and> length df = nat N
              \<and> (\<forall>i<nat N. timestamp (df ! i) = T - 300000000 * (N - 1 - int i))
              \<and> (\<forall>i. Suc i < nat N \<longrightarrow>
                    timestamp (df ! Suc i) = timestamp (df ! i) + 300000000)
              \<and> timestamp (last df) = T))
       \<and> (T < 300000000 * (N - 1) \<longrightarrow> generate_sample_data T g N = Inl OverflowError)"
proof (intro conjI impI)
  assume "300000000 * (N - 1) \<le> T"
  with assms obtain df where df: "generate_sample_data T g N = Inr df"
    using generate_total by blast
  have len: "length df = nat N" by (rule generate_rows(2) [OF df])
  have ts: "timestamp (df ! i) = T - 300000000 * (N - 1 - int i)" if "i < nat N" for i
    using generate_rows(3) [OF df that] by simp
  have stride: "timestamp (df ! Suc i) = timestamp (df ! i) + 300000000" if "Suc i < nat N" for i
  proof -
    from that have "i < nat N" by simp
    then show ?thesis using ts [OF that] ts [of i] by simp
  qed
  have "df \<noteq> []" using len assms(2) by auto
  then have "last df = df ! (nat N - 1)" using len by (simp add: last_conv_nth)
  moreover have "nat N - 1 < nat N" using assms(2) by simp
  ultimately have "timestamp (last df) = T - 300000000 * (N - 1 - int (nat N - 1))"
    using ts by simp
  also have "int (nat N - 1) = N - 1" using assms(2) by simp
  finally have newest: "timestamp (last df) = T" by simp
  show "\<exists>df. generate_sample_data T g N = Inr df \<and> length df = nat N
              \<and> (\<forall>i<nat N. timestamp (df ! i) = T - 300000000 * (N - 1 - int i))
              \<and> (\<forall>i. Suc i < nat N \<longrightarrow>
                    timestamp (df ! Suc i) = timestamp (df ! i) + 300000000)
              \<and> timestamp (last df) = T"
    using df len ts stride newest by blast
next
  assume "T < 300000000 * (N - 1)"
  with assms(2) show "generate_sample_data T g N = Inl OverflowError"
    by (rule generate_raises)
qed

theorem generate_sample_data_timestamps_witness:
  "valid_datetime t_2026 \<and> (1::int) \<le> 2 \<and> 300000000 * (2 - 1) \<le> t_2026
   \<and> (\<exists>df. generate_sample_data t_2026 counting 2 = Inr df \<and> length df = 2
         \<and> timestamp (df ! 0) = t_2026 - 300000000 \<and> timestamp (df ! 1) = t_2026
         \<and> timestamp (last df) = t_2026)"
  using generate_sample_data_timestamps [OF valid_t_2026, of 2 counting] valid_t_2026
  by (simp add: generate_two)

text \<open>
  C4: in every generated series, whatever the random draws, the power reserve of every
  sample lies in \<open>[60, 95]\<close> and its speed in \<open>[1.0, 3.5]\<close>.
\<close>

theorem power_and_speed_within_bounds:
  assumes "generate_sample_data T g N = Inr df" and "s \<in> set df"
  shows "60 \<le> power_pct s \<and> power_pct s \<le> 95 \<and> 1.0 \<le> speed_knots s \<and> speed_knots s \<le> 3.5"
proof -
  from assms(2) obtain i where i: "i < length df" and s: "s = df ! i"
    by (auto simp: in_set_conv_nth)
  from i have "i < nat N" using generate_rows(2) [OF assms(1)] by simp
  from generate_rows(3) [OF assms(1) this] show ?thesis
    unfolding s by simp
qed

theorem power_and_speed_within_bounds_witness:
  "generate_sample_data t_2026 counting 2 =
     Inr [\<lparr>timestamp = 63929260500000000, depth_m = 100, temperature_c = 4.4,
           pressure_kpa = 150, power_pct = 95, heading_deg = 192, speed_knots = 3.5\<rparr>,
          \<lparr>timestamp = 63929260800000000, depth_m = 358, temperature_c = 4.605,
           pressure_kpa = 490.4, power_pct = 95, heading_deg = 205.5, speed_knots = 3.5\<rparr>]
   \<and> 60 \<le> power_pct \<lparr>timestamp = 63929260800000000, depth_m = 358, temperature_c = 4.605,
           pressure_kpa = 490.4, power_pct = 95, heading_deg = 205.5, speed_knots = 3.5\<rparr>
   \<and> speed_knots \<lparr>timestamp = 63929260800000000, depth_m = 358, temperature_c = 4.605,
           pressure_kpa = 490.4, power_pct = 95, heading_deg = 205.5, speed_knots = 3.5\<rparr>
        \<le> 3.5"
  using power_and_speed_within_bounds [OF generate_two,
      of "\<lparr>timestamp = 63929260800000000, depth_m = 358, temperature_c = 4.605,
           pressure_kpa = 490.4, power_pct = 95, heading_deg = 205.5, speed_knots = 3.5\<rparr>"]
    generate_two
  by simp








text \<open>
  C6: in every generated series the pressure of row \<open>i\<close> is 1.3 times the depth stored in
  the same row (the ramp value with its noise already added) plus a noise term of its own,
  the deviate \<open>i + 2 n\<close> of the generator scaled by 5; the depth noise is the deviate \<open>i\<close>.
\<close>

theorem pressure_follows_depth:
  assumes "generate_sample_data T g N = Inr df" and "i < length df"
  shows "pressure_kpa (df ! i) = 1.3 * depth_m (df ! i) + (0 + 5 * g (i + 2 * length df))
       \<and> depth_m (df ! i) =
           (if N = 1 then 100 else 100 + real i * ((350 - 100) / real_of_int (N - 1)))
             + (0 + 8 * g i)
       \<and> i \<noteq> i + 2 * length df"
proof -
  have len: "length df = nat N" by (rule generate_rows(2) [OF assms(1)])
  with assms(2) have i: "i < nat N" by simp
  have two: "i + 2 * nat N = i + nat N + nat N" by simp
  from generate_rows(3) [OF assms(1) i] assms(2) show ?thesis
    by (simp add: len two)
qed

theorem pressure_follows_depth_witness:
  "generate_sample_data t_2026 counting 2 =
     Inr [\<lparr>timestamp = 63929260500000000, depth_m = 100, temperature_c = 4.4,
           pressure_kpa = 150, power_pct = 95, heading_deg = 192, speed_knots = 3.5\<rparr>,
          \<lparr>timestamp = 63929260800000000, depth_m = 358, temperature_c = 4.605,
           pressure_kpa = 490.4, power_pct = 95, heading_deg = 205.5, speed_knots = 3.5\<rparr>]
   \<and> (490.4 :: real) = 1.3 * 358 + (0 + 5 * counting 5)"
  using pressure_follows_depth [OF generate_two, of 1] generate_two
  by (simp add: counting_def)

subsection \<open>The worked example of the filter\<close>

lemma length_ten_samples: "length ten_samples = 10"
  by (simp add: ten_samples_def)






lemma example_frames: "frames example_session = [ten_samples]"
  by (simp add: example_session_def)


subsection \<open>Claims about the filter\<close>



text \<open>
  C7: the filter never reorders or duplicates samples: what it returns is a subsequence of
  the series it was given. It is idempotent: filtering the result again by the same window
  or by a wider one (``All data'' is the widest) returns a series equal to the first
  result. The same holds of lines 83 and 84 for any two windows \<open>0 \<le> w \<le> w'\<close>.
\<close>

theorem sidebar_filters_idempotent:
  assumes "df < length (frames s)"
    and "time_options again = None
         \<or> (\<exists>w w'. time_options selection = Some w \<and> time_options again = Some w' \<and> w \<le> w')"
  shows "(\<exists>r1 s1 r2 s2. sidebar_filters selection df s = Inr (r1, s1)
            \<and> sidebar_filters again r1 s1 = Inr (r2, s2)
            \<and> subseq (frames s1 ! r1) (frames s ! df)
            \<and> frames s2 ! r2 = frames s1 ! r1)
       \<and> subseq (rows_since w rows) rows
       \<and> (0 \<le> w \<and> w \<le> w' \<longrightarrow> rows_since w' (rows_since w rows) = rows_since w rows)"
proof (intro conjI impI)
  from assms(1) obtain r1 s1 where first: "sidebar_filters selection df s = Inr (r1, s1)"
    and r1: "r1 < length (frames s1)"
    and rows1: "frames s1 ! r1 = (case time_options selection of None \<Rightarrow> frames s ! df
           | Some m \<Rightarrow> rows_since (m * 60000000) (frames s ! df))"
    by (rule sidebar_filters_result)
  from r1 obtain r2 s2 where second: "sidebar_filters again r1 s1 = Inr (r2, s2)"
    and rows2: "frames s2 ! r2 = (case time_options again of None \<Rightarrow> frames s1 ! r1
           | Some m \<Rightarrow> rows_since (m * 60000000) (frames s1 ! r1))"
    by (rule sidebar_filters_result)
  have sub: "subseq (frames s1 ! r1) (frames s ! df)"
    unfolding rows1 by (cases "time_options selection") (simp_all add: subseq_rows_since)
  have same: "frames s2 ! r2 = frames s1 ! r1"
  proof (cases "time_options again")
    case None
    with rows2 show ?thesis by simp
  next
    case (Some m')
    with assms(2) obtain m where m: "time_options selection = Some m" and le: "m \<le> m'"
      by auto
    have "0 \<le> m" using timedelta_option [OF m] by simp
    then have "rows_since (m' * 60000000) (rows_since (m * 60000000) (frames s ! df))
        = rows_since (m * 60000000) (frames s ! df)"
      using le by (intro rows_since_idem) simp_all
    then show ?thesis using rows1 rows2 m Some by simp
  qed
  from first second sub same
  show "\<exists>r1 s1 r2 s2. sidebar_filters selection df s = Inr (r1, s1)
            \<and> sidebar_filters again r1 s1 = Inr (r2, s2)
            \<and> subseq (frames s1 ! r1) (frames s ! df)
            \<and> frames s2 ! r2 = frames s1 ! r1"
    by (intro exI conjI)
next
  show "subseq (rows_since w rows) rows" by (rule subseq_rows_since)
next
  assume "0 \<le> w \<and> w \<le> w'"
  then show "rows_since w' (rows_since w rows) = rows_since w rows"
    by (intro rows_since_idem) simp_all
qed

theorem sidebar_filters_idempotent_witness:
  "0 < length (frames example_session)
   \<and> time_options Last_30_minutes = Some 30 \<and> time_options Last_1_hour = Some 60
   \<and> (\<exists>r1 s1 r2 s2. sidebar_filters Last_30_minutes 0 example_session = Inr (r1, s1)
          \<and> sidebar_filters Last_1_hour r1 s1 = Inr (r2, s2)
          \<and> frames s2 ! r2 = frames s1 ! r1)
   \<and> (0::int) \<le> 1800000000 \<and> (1800000000::int) \<le> 3600000000
   \<and> rows_since 3600000000 (rows_since 1800000000 ten_samples)
        = rows_since 1800000000 ten_samples"
proof -
  have valid: "0 < length (frames example_session)" by (simp add: example_frames)
  have wider: "time_options Last_1_hour = None
      \<or> (\<exists>w w'. time_options Last_30_minutes = Some w \<and> time_options Last_1_hour = Some w'
            \<and> w \<le> w')"
    by simp
  note claim = sidebar_filters_idempotent [OF valid wider,
      of 1800000000 ten_samples 3600000000]
  have twice: "\<exists>r1 s1 r2 s2. sidebar_filters Last_30_minutes 0 example_session = Inr (r1, s1)
          \<and> sidebar_filters Last_1_hour r1 s1 = Inr (r2, s2)
          \<and> frames s2 ! r2 = frames s1 ! r1"
    using claim [THEN conjunct1] by blast
  have order: "(0::int) \<le> 1800000000 \<and> (1800000000::int) \<le> 3600000000" by simp
  have again: "rows_since 3600000000 (rows_since 1800000000 ten_samples)
        = rows_since 1800000000 ten_samples"
    using claim [THEN conjunct2, THEN conjunct2, THEN mp, OF order] .
  show ?thesis
    using valid twice order again time_options.simps(1) time_options.simps(2) by blast
qed

text \<open>
  C8: the filter does not change the series it is given: after the call the object behind
  the reference it received, and every other data frame that existed, has the rows it had
  before, and the rows of the result are in the order they have in the input.
\<close>

theorem sidebar_filters_leaves_input:
  assumes "df < length (frames s)"
  shows "\<exists>r s'. sidebar_filters selection df s = Inr (r, s')
           \<and> frames s' ! df = frames s ! df
           \<and> (\<forall>k<length (frames s). frames s' ! k = frames s ! k)
           \<and> subseq (frames s' ! r) (frames s ! df)"
proof -
  from assms obtain r s' where call: "sidebar_filters selection df s = Inr (r, s')"
    and rows: "frames s' ! r = (case time_options selection of None \<Rightarrow> frames s ! df
           | Some m \<Rightarrow> rows_since (m * 60000000) (frames s ! df))"
    and others: "\<forall>k<length (frames s). frames s' ! k = frames s ! k"
    by (rule sidebar_filters_result)
  have input: "frames s' ! df = frames s ! df" using others assms by blast
  have sub: "subseq (frames s' ! r) (frames s ! df)"
    unfolding rows by (cases "time_options selection") (simp_all add: subseq_rows_since)
  from call input others sub show ?thesis by (intro exI conjI)
qed

theorem sidebar_filters_leaves_input_witness:
  "0 < length (frames example_session)
   \<and> (\<exists>r s'. sidebar_filters Last_30_minutes 0 example_session = Inr (r, s')
         \<and> frames s' ! 0 = ten_samples)"
proof -
  have valid: "0 < length (frames example_session)" by (simp add: example_frames)
  have zero: "frames example_session ! 0 = ten_samples" by (simp add: example_frames)
  from sidebar_filters_leaves_input [OF valid, of Last_30_minutes] obtain r s' where
    "sidebar_filters Last_30_minutes 0 example_session = Inr (r, s')"
    "frames s' ! 0 = frames example_session ! 0"
    by blast
  then show ?thesis using valid unfolding zero by blast
qed

text \<open>
  C10: for every series that is not empty the result of the filter is not empty: it always
  holds a sample with the greatest timestamp of the input. This is so for every choice of
  the sidebar and, on lines 83 and 84, for every window \<open>W \<ge> 0\<close>.
\<close>

theorem sidebar_filters_keeps_newest:
  assumes "df < length (frames s)" and "frames s ! df \<noteq> []"
  shows "(\<exists>r s'. sidebar_filters selection df s = Inr (r, s')
            \<and> frames s' ! r \<noteq> []
            \<and> (\<exists>x \<in> set (frames s' ! r). timestamp x = Max (timestamp ` set (frames s ! df))))
       \<and> (0 \<le> W \<longrightarrow> rows_since (W * 60000000) (frames s ! df) \<noteq> []
            \<and> (\<exists>x \<in> set (rows_since (W * 60000000) (frames s ! df)).
                  timestamp x = Max (timestamp ` set (frames s ! df))))"
proof (intro conjI impI)
  from assms(1) obtain r s' where call: "sidebar_filters selection df s = Inr (r, s')"
    and rows: "frames s' ! r = (case time_options selection of None \<Rightarrow> frames s ! df
           | Some m \<Rightarrow> rows_since (m * 60000000) (frames s ! df))"
    by (rule sidebar_filters_result)
  have newest: "\<exists>x \<in> set (frames s' ! r). timestamp x = Max (timestamp ` set (frames s ! df))"
  proof (cases "time_options selection")
    case None
    have "Max (timestamp ` set (frames s ! df)) \<in> timestamp ` set (frames s ! df)"
      using assms(2) by (intro Max_in) simp_all
    then show ?thesis using rows None by auto
  next
    case (Some m)
    have "0 \<le> m * 60000000" using timedelta_option [OF Some] by simp
    with assms(2) show ?thesis
      unfolding rows Some option.case by (rule newest_in_rows_since)
  qed
  then have "frames s' ! r \<noteq> []" by auto
  with call newest
  show "\<exists>r s'. sidebar_filters selection df s = Inr (r, s')
            \<and> frames s' ! r \<noteq> []
            \<and> (\<exists>x \<in> set (frames s' ! r). timestamp x = Max (timestamp ` set (frames s ! df)))"
    by (intro exI conjI)
next
  assume "0 \<le> W"
  then have w: "0 \<le> W * 60000000" by simp
  with assms(2) show "rows_since (W * 60000000) (frames s ! df) \<noteq> []"
    by (rule rows_since_nonempty)
  from assms(2) w
  show "\<exists>x \<in> set (rows_since (W * 60000000) (frames s ! df)).
                  timestamp x = Max (timestamp ` set (frames s ! df))"
    by (rule newest_in_rows_since)
qed

theorem sidebar_filters_keeps_newest_witness:
  "0 < length (frames example_session) \<and> frames example_session ! 0 \<noteq> []
   \<and> (\<exists>r s'. sidebar_filters Last_30_minutes 0 example_session = Inr (r, s')
         \<and> frames s' ! r \<noteq> [])
   \<and> (0::int) \<le> 0
   \<and> rows_since (0 * 60000000) (frames example_session ! 0) \<noteq> []"
proof -
  have valid: "0 < length (frames example_session)" by (simp add: example_frames)
  have rows: "frames example_session ! 0 \<noteq> []"
    using length_ten_samples by (auto simp: example_frames)
  note claim = sidebar_filters_keeps_newest [OF valid rows, of Last_30_minutes 0]
  have kept: "\<exists>r s'. sidebar_filters Last_30_minutes 0 example_session = Inr (r, s')
         \<and> frames s' ! r \<noteq> []"
    using claim [THEN conjunct1] by blast
  have zero: "(0::int) \<le> 0" by simp
  have "rows_since (0 * 60000000) (frames example_session ! 0) \<noteq> []"
    using claim [THEN conjunct2, THEN mp, OF zero] by blast
  with valid rows kept zero show ?thesis by blast
qed

subsection \<open>Claims about rendering\<close>

lemma lone_frames: "frames lone_session = [drop 9 ten_samples]"
  by (simp add: lone_session_def)

lemma length_lone: "length (frames lone_session ! 0) = 1"
  by (simp add: lone_frames length_ten_samples)

text \<open>
  C3, as the specification states it: when the series given to the overview has fewer than
  two samples, the delta against the previous sample is skipped or shown as unavailable,
  and rendering the metrics does not raise. It does raise: line 111 reads
  \<^verbatim>\<open>df.iloc[-2]\<close>, which is an IndexError on a series of one sample.
\<close>

theorem mission_overview_single_sample:
  "length (frames lone_session ! 0) = 1
   \<and> mission_overview t_2026 (MISSION lone_session) 0 lone_session = Inl IndexError"
proof -
  have "length (frames lone_session ! 0) < 2" by (simp add: length_lone)
  then have "mission_overview t_2026 (MISSION lone_session) 0 lone_session = Inl IndexError"
    by (rule mission_overview_raises)
  with length_lone show ?thesis by simp
qed

text \<open>
  C3, amended: when the series given to the overview has at least two samples, rendering
  the metrics does not raise, and the deltas of depth, temperature and power are the
  latest value minus the value of the sample before it; when it has fewer than two
  samples, rendering raises IndexError: no delta is skipped or shown as unavailable.
\<close>

theorem mission_overview_needs_two_samples:
  "(length (frames s ! df) < 2 \<longrightarrow> mission_overview now st df s = Inl IndexError)
   \<and> (2 \<le> length (frames s ! df) \<longrightarrow>
        (\<exists>s'. mission_overview now st df s = Inr s'
           \<and> drop (length (page s) + 7) (page s') =
               [Metric ''Depth'' (Number (depth_m (last (frames s ! df))))
                  (Some (Number (depth_m (last (frames s ! df))
                     - depth_m (frames s ! df ! (length (frames s ! df) - 2))))),
                Metric ''Temperature'' (Number (temperature_c (last (frames s ! df))))
                  (Some (Number (temperature_c (last (frames s ! df))
                     - temperature_c (frames s ! df ! (length (frames s ! df) - 2))))),
                Metric ''Pressure'' (Number (pressure_kpa (last (frames s ! df)))) None,
                Metric ''Power Reserve'' (Number (power_pct (last (frames s ! df))))
                  (Some (Number (power_pct (last (frames s ! df))
                     - power_pct (frames s ! df ! (length (frames s ! df) - 2)))))]))"
proof (intro conjI impI)
  assume "length (frames s ! df) < 2"
  then show "mission_overview now st df s = Inl IndexError"
    by (rule mission_overview_raises)
next
  assume "2 \<le> length (frames s ! df)"
  from mission_overview_returns [OF this, of now st]
  show "\<exists>s'. mission_overview now st df s = Inr s'
           \<and> drop (length (page s) + 7) (page s') =
               [Metric ''Depth'' (Number (depth_m (last (frames s ! df))))
                  (Some (Number (depth_m (last (frames s ! df))
                     - depth_m (frames s ! df ! (length (frames s ! df) - 2))))),
                Metric ''Temperature'' (Number (temperature_c (last (frames s ! df))))
                  (Some (Number (temperature_c (last (frames s ! df))
                     - temperature_c (frames s ! df ! (length (frames s ! df) - 2))))),
                Metric ''Pressure'' (Number (pressure_kpa (last (frames s ! df)))) None,
                Metric ''Power Reserve'' (Number (power_pct (last (frames s ! df))))
                  (Some (Number (power_pct (last (frames s ! df))
                     - power_pct (frames s ! df ! (length (frames s ! df) - 2)))))]"
    by blast
qed

theorem mission_overview_needs_two_samples_witness:
  "length (frames lone_session ! 0) < 2
   \<and> mission_overview t_2026 (MISSION lone_session) 0 lone_session = Inl IndexError
   \<and> 2 \<le> length (frames example_session ! 0)
   \<and> (\<exists>s'. mission_overview t_2026 (MISSION example_session) 0 example_session = Inr s')"
proof -
  have one: "length (frames lone_session ! 0) < 2" by (simp add: length_lone)
  have ten: "2 \<le> length (frames example_session ! 0)"
    by (simp add: example_frames length_ten_samples)
  have "mission_overview t_2026 (MISSION lone_session) 0 lone_session = Inl IndexError"
    using mission_overview_needs_two_samples
      [of lone_session 0 t_2026 "MISSION lone_session", THEN conjunct1, THEN mp, OF one] .
  moreover
  have "\<exists>s'. mission_overview t_2026 (MISSION example_session) 0 example_session = Inr s'"
    using mission_overview_needs_two_samples
      [of example_session 0 t_2026 "MISSION example_session", THEN conjunct2, THEN mp, OF ten]
    by blast
  ultimately show ?thesis using one ten by blast
qed

text \<open>
  C9: \<^verbatim>\<open>MISSION\<close> is a record of eight fields (name, objective, location, pilot,
  supervisor, start time, status, notes), built once when the script starts, and no
  operation of the run changes a field of it: each of the five functions leaves the
  record as it found it, and at the end of the script it is the record that lines 56 to
  65 built, its start time 3 hours 27 minutes before the first reading of the clock.
\<close>

theorem MISSION_is_not_mutated:
  "(sidebar_filters selection df s = Inr (r, s') \<longrightarrow> MISSION s' = MISSION s)
   \<and> (mission_overview now st df s = Inr s' \<longrightarrow> MISSION s' = MISSION s)
   \<and> (plot_timeseries df s = Inr s' \<longrightarrow> MISSION s' = MISSION s)
   \<and> (engineering_panel df s = Inr s' \<longrightarrow> MISSION s' = MISSION s)
   \<and> (telemetry_table df s = Inr s' \<longrightarrow> MISSION s' = MISSION s)
   \<and> (script t1 t2 t3 g selection = Inr s' \<longrightarrow>
        MISSION s' =
          \<lparr>mission_name = ''Poseidon-7 Survey'',
           objective = ''Map subsea pipeline integrity and capture HD imagery'',
           location = ''North Sea Block 15'',
           pilot = ''Casey Morgan'',
           supervisor = ''Lt. Priya Desai'',
           start_time = t1 - 12420000000,
           status = ''Active'',
           notes' = ''Monitoring cross-current turbulence; maintain depth < 350m.''\<rparr>)"
proof (intro conjI impI)
  assume "sidebar_filters selection df s = Inr (r, s')"
  then show "MISSION s' = MISSION s" by (rule sidebar_filters_MISSION)
next
  assume "mission_overview now st df s = Inr s'"
  from mission_overview_keeps [OF this] show "MISSION s' = MISSION s" by simp
next
  assume "plot_timeseries df s = Inr s'"
  with plot_timeseries_returns [of df s] show "MISSION s' = MISSION s" by auto
next
  assume "engineering_panel df s = Inr s'"
  from engineering_panel_keeps [OF this] show "MISSION s' = MISSION s" by simp
next
  assume "telemetry_table df s = Inr s'"
  with telemetry_table_returns [of df s] show "MISSION s' = MISSION s" by auto
next
  assume "script t1 t2 t3 g selection = Inr s'"
  then show "MISSION s' =
          \<lparr>mission_name = ''Poseidon-7 Survey'',
           objective = ''Map subsea pipeline integrity and capture HD imagery'',
           location = ''North Sea Block 15'',
           pilot = ''Casey Morgan'',
           supervisor = ''Lt. Priya Desai'',
           start_time = t1 - 12420000000,
           status = ''Active'',
           notes' = ''Monitoring cross-current turbulence; maintain depth < 350m.''\<rparr>"
    by (rule script_MISSION)
qed

theorem MISSION_is_not_mutated_witness:
  "(\<exists>r s'. sidebar_filters Last_3_hours 0 example_session = Inr (r, s')
       \<and> MISSION s' = MISSION example_session)
   \<and> (\<exists>s'. mission_overview t_2026 (MISSION example_session) 0 example_session = Inr s'
       \<and> MISSION s' = MISSION example_session)
   \<and> (\<exists>s'. plot_timeseries 0 example_session = Inr s' \<and> MISSION s' = MISSION example_session)
   \<and> (\<exists>s'. engineering_panel 0 example_session = Inr s'
       \<and> MISSION s' = MISSION example_session)
   \<and> (\<exists>s'. telemetry_table 0 example_session = Inr s' \<and> MISSION s' = MISSION example_session)
   \<and> (\<exists>s'. script t_2026 t_2026 t_2026 counting Last_3_hours = Inr s'
       \<and> start_time (MISSION s') = t_2026 - 12420000000
       \<and> status (MISSION s') = ''Active'')"
proof -
  have valid: "0 < length (frames example_session)" by (simp add: example_frames)
  have rows: "2 \<le> length (frames example_session ! 0)"
    by (simp add: example_frames length_ten_samples)
  then have ne: "frames example_session ! 0 \<noteq> []" by auto
  have a: "\<exists>r s'. sidebar_filters Last_3_hours 0 example_session = Inr (r, s')
       \<and> MISSION s' = MISSION example_session"
  proof -
    from valid obtain r s' where
      call: "sidebar_filters Last_3_hours 0 example_session = Inr (r, s')"
      by (rule sidebar_filters_result)
    from MISSION_is_not_mutated [of Last_3_hours 0 example_session r s', THEN conjunct1,
        THEN mp, OF call] call
    show ?thesis by blast
  qed
  have b: "\<exists>s'. mission_overview t_2026 (MISSION example_session) 0 example_session = Inr s'
       \<and> MISSION s' = MISSION example_session"
  proof -
    from mission_overview_returns [OF rows, of t_2026 "MISSION example_session"] obtain s'
      where call: "mission_overview t_2026 (MISSION example_session) 0 example_session = Inr s'"
      by blast
    from MISSION_is_not_mutated [of _ 0 example_session _ s' t_2026 "MISSION example_session",
        THEN conjunct2, THEN conjunct1, THEN mp, OF call] call
    show ?thesis by blast
  qed
  have c: "\<exists>s'. plot_timeseries 0 example_session = Inr s'
       \<and> MISSION s' = MISSION example_session"
  proof -
    from plot_timeseries_returns [of 0 example_session] obtain s'
      where call: "plot_timeseries 0 example_session = Inr s'" by blast
    from MISSION_is_not_mutated [of _ 0 example_session _ s', THEN conjunct2, THEN conjunct2,
        THEN conjunct1, THEN mp, OF call] call
    show ?thesis by blast
  qed
  have d: "\<exists>s'. engineering_panel 0 example_session = Inr s'
       \<and> MISSION s' = MISSION example_session"
  proof -
    from engineering_panel_returns [OF ne] obtain s'
      where call: "engineering_panel 0 example_session = Inr s'" by blast
    from MISSION_is_not_mutated [of _ 0 example_session _ s', THEN conjunct2, THEN conjunct2,
        THEN conjunct2, THEN conjunct1, THEN mp, OF call] call
    show ?thesis by blast
  qed
  have e: "\<exists>s'. telemetry_table 0 example_session = Inr s'
       \<and> MISSION s' = MISSION example_session"
  proof -
    from telemetry_table_returns [of 0 example_session] obtain s'
      where call: "telemetry_table 0 example_session = Inr s'" by blast
    from MISSION_is_not_mutated [of _ 0 example_session _ s', THEN conjunct2, THEN conjunct2,
        THEN conjunct2, THEN conjunct2, THEN conjunct1, THEN mp, OF call] call
    show ?thesis by blast
  qed
  have f: "\<exists>s'. script t_2026 t_2026 t_2026 counting Last_3_hours = Inr s'
       \<and> start_time (MISSION s') = t_2026 - 12420000000
       \<and> status (MISSION s') = ''Active''"
  proof -
    have "\<exists>s'. script t_2026 t_2026 t_2026 counting Last_3_hours = Inr s'"
      by (rule script_total [OF valid_t_2026 _ valid_t_2026]) (simp_all add: t_2026_def)
    then obtain s' where
      call: "script t_2026 t_2026 t_2026 counting Last_3_hours = Inr s'" ..
    from MISSION_is_not_mutated [where s' = s' and ?t1.0 = t_2026 and ?t2.0 = t_2026
        and ?t3.0 = t_2026 and g = counting and selection = Last_3_hours,
        THEN conjunct2, THEN conjunct2, THEN conjunct2, THEN conjunct2, THEN conjunct2,
        THEN mp, OF call]
    have "start_time (MISSION s') = t_2026 - 12420000000 \<and> status (MISSION s') = ''Active''"
      by simp
    with call show ?thesis by blast
  qed
  from a b c d e f show ?thesis by blast
qed

end
